theory Spec2Isabelle
  imports Complex_Main "HOL-Library.Sublist"
begin

section \<open>The chat assistant of the restroom locator\<close>

text \<open>
  A shallow embedding of \<^verbatim>\<open>src/components/Chatbot.tsx\<close>: the message handler
  \<^verbatim>\<open>handleSendMessage\<close> and the keyword classifier \<^verbatim>\<open>processUserQuery\<close>.

  Conventions of the model.
  \<^item> A JavaScript number that holds a coordinate or a distance is a \<open>real\<close>: every finite
    double is one. The program computes with IEEE doubles, so the number operations
    of the distance test (subtraction, \<^verbatim>\<open>Math.pow\<close>, addition, \<^verbatim>\<open>Math.sqrt\<close>,
    multiplication) are parameters of the model, as the runtime provides them, each
    with its rounding. Comparisons of doubles are exact. NaN and the infinities are
    outside the model. A cleanliness score is an \<open>int\<close>, a length a \<open>nat\<close>.
  \<^item> A JavaScript string is a \<open>string\<close> of 8-bit characters, the bytes of its UTF-8
    encoding. \<^verbatim>\<open>toLowerCase\<close> maps the letters A to Z to a to z and leaves every
    other byte as it is. JavaScript also lower-cases the letters outside ASCII; this
    yields an ASCII letter only for U+0130 and U+212A, so the keyword tests of a query
    without these two characters are the ones of the program.
  \<^item> The classifier's effects are its reply text (\<^verbatim>\<open>botResponse\<close>) and the calls it
    makes to the callback \<^verbatim>\<open>onFindNearbyRestrooms\<close>: the model returns the reply and
    the list of the arguments of these calls, in order. The delayed display of the reply
    and the speech output are not modelled.
\<close>

subsection \<open>Data\<close>

text \<open>
  Modelled from the spec: the type \<^verbatim>\<open>Restroom\<close> of \<^verbatim>\<open>@/types\<close> is not among the
  sources. The fields are the ones the classifier reads: \<^verbatim>\<open>name\<close>,
  \<^verbatim>\<open>location.lat\<close>, \<^verbatim>\<open>location.lng\<close>, \<^verbatim>\<open>cleanliness.score\<close>,
  \<^verbatim>\<open>accessibility\<close>, \<^verbatim>\<open>babyChanging\<close>, \<^verbatim>\<open>genderNeutral\<close>; the spec adds the
  report count.
\<close>

record latlng =
  lat :: real
  lng :: real

record cleanliness_info =
  score :: int
  reports :: nat

record restroom =
  name :: string
  location :: latlng
  cleanliness :: cleanliness_info
  accessibility :: bool
  babyChanging :: bool
  genderNeutral :: bool

text \<open>
  What the classifier takes from outside.

  The functions the component imports from \<^verbatim>\<open>@/data/restrooms\<close> and
  \<^verbatim>\<open>@/data/userRestrooms\<close>: their code is not among the sources, so the classifier
  takes them as parameters: the two catalogues, the two helpers called with a latitude, a
  longitude and a radius, and the cleanliness tier of a score.

  The number operations of the runtime that the distance test uses: \<^verbatim>\<open>a - b\<close>,
  \<^verbatim>\<open>Math.pow(a, b)\<close>, \<^verbatim>\<open>a + b\<close>, \<^verbatim>\<open>Math.sqrt(a)\<close> and \<^verbatim>\<open>a * b\<close> on doubles.
\<close>

record env =
  getAllRestrooms :: "restroom list"
  getUserRestrooms :: "restroom list"
  getRestroomsByLocation :: "real \<Rightarrow> real \<Rightarrow> real \<Rightarrow> restroom list"
  getNearbyRestrooms :: "real \<Rightarrow> real \<Rightarrow> real \<Rightarrow> restroom list"
  getCleanlinessTier :: "int \<Rightarrow> string"
  numSub :: "real \<Rightarrow> real \<Rightarrow> real"
  mathPow :: "real \<Rightarrow> real \<Rightarrow> real"
  numAdd :: "real \<Rightarrow> real \<Rightarrow> real"
  mathSqrt :: "real \<Rightarrow> real"
  numMul :: "real \<Rightarrow> real \<Rightarrow> real"

text \<open>The component state the classifier reads.\<close>

record chatbot =
  currentLocation :: latlng
  hasLocationPermission :: bool

subsection \<open>Strings and numbers\<close>

definition toLowerChar :: "char \<Rightarrow> char" where
  "toLowerChar c =
     (let n = (of_char c :: nat) in if 65 \<le> n \<and> n \<le> 90 then char_of (n + 32) else c)"

definition toLowerCase :: "string \<Rightarrow> string" where
  "toLowerCase s = map toLowerChar s"

text \<open>\<^verbatim>\<open>s.includes(k)\<close>: \<open>k\<close> occurs in \<open>s\<close> as a contiguous run of characters.\<close>

fun includesStr :: "string \<Rightarrow> string \<Rightarrow> bool" where
  "includesStr [] k = (k = [])"
| "includesStr (c # cs) k = (prefix k (c # cs) \<or> includesStr cs k)"

text \<open>
  \<^verbatim>\<open>s.trim()\<close> removes the white space and the line terminators of JavaScript from
  both ends. In UTF-8 these are the bytes 09 to 0D and 20, and the encodings of U+00A0,
  U+1680, U+2000 to U+200A, U+2028, U+2029, U+202F, U+205F, U+3000 and U+FEFF.
\<close>

definition whiteSpaces :: "string list" where
  "whiteSpaces =
     [[CHR 0x09], [CHR 0x0A], [CHR 0x0B], [CHR 0x0C], [CHR 0x0D], [CHR 0x20],
      [CHR 0xC2, CHR 0xA0],
      [CHR 0xE1, CHR 0x9A, CHR 0x80],
      [CHR 0xE2, CHR 0x80, CHR 0x80], [CHR 0xE2, CHR 0x80, CHR 0x81],
      [CHR 0xE2, CHR 0x80, CHR 0x82], [CHR 0xE2, CHR 0x80, CHR 0x83],
      [CHR 0xE2, CHR 0x80, CHR 0x84], [CHR 0xE2, CHR 0x80, CHR 0x85],
      [CHR 0xE2, CHR 0x80, CHR 0x86], [CHR 0xE2, CHR 0x80, CHR 0x87],
      [CHR 0xE2, CHR 0x80, CHR 0x88], [CHR 0xE2, CHR 0x80, CHR 0x89],
      [CHR 0xE2, CHR 0x80, CHR 0x8A],
      [CHR 0xE2, CHR 0x80, CHR 0xA8], [CHR 0xE2, CHR 0x80, CHR 0xA9],
      [CHR 0xE2, CHR 0x80, CHR 0xAF],
      [CHR 0xE2, CHR 0x81, CHR 0x9F],
      [CHR 0xE3, CHR 0x80, CHR 0x80],
      [CHR 0xEF, CHR 0xBB, CHR 0xBF]]"

definition leadingWhiteSpace :: "string \<Rightarrow> nat" where
  "leadingWhiteSpace s =
     (case find (\<lambda>w. prefix w s) whiteSpaces of None \<Rightarrow> 0 | Some w \<Rightarrow> length w)"

definition trailingWhiteSpace :: "string \<Rightarrow> nat" where
  "trailingWhiteSpace s =
     (case find (\<lambda>w. suffix w s) whiteSpaces of None \<Rightarrow> 0 | Some w \<Rightarrow> length w)"

function trimStart :: "string \<Rightarrow> string" where
  "trimStart s =
     (if leadingWhiteSpace s = 0 then s else trimStart (drop (leadingWhiteSpace s) s))"
  by pat_completeness auto

function trimEnd :: "string \<Rightarrow> string" where
  "trimEnd s =
     (if trailingWhiteSpace s = 0 then s
      else trimEnd (take (length s - trailingWhiteSpace s) s))"
  by pat_completeness auto

termination trimStart
proof (relation "measure length")
  show "wf (measure length)"
    by simp
next
  fix s :: string
  assume "leadingWhiteSpace s \<noteq> 0"
  moreover have "leadingWhiteSpace s \<le> length s"
    by (auto simp add: leadingWhiteSpace_def find_Some_iff prefix_def split: option.splits)
  ultimately show "(drop (leadingWhiteSpace s) s, s) \<in> measure length"
    by simp
qed

termination trimEnd
proof (relation "measure length")
  show "wf (measure length)"
    by simp
next
  fix s :: string
  assume "trailingWhiteSpace s \<noteq> 0"
  moreover have "trailingWhiteSpace s \<le> length s"
    by (auto simp add: trailingWhiteSpace_def find_Some_iff suffix_def split: option.splits)
  ultimately show "(take (length s - trailingWhiteSpace s) s, s) \<in> measure length"
    by simp
qed

declare trimStart.simps [simp del] trimEnd.simps [simp del]

definition trim :: "string \<Rightarrow> string" where
  "trim s = trimEnd (trimStart s)"

text \<open>A number inside a template literal: the decimal digits, with a sign for a negative one.\<close>

fun show_nat :: "nat \<Rightarrow> string" where
  "show_nat n =
     (if n < 10 then [''0123456789'' ! n]
      else show_nat (n div 10) @ [''0123456789'' ! (n mod 10)])"

declare show_nat.simps [simp del]

definition show_int :: "int \<Rightarrow> string" where
  "show_int i = (if i < 0 then ''-'' @ show_nat (nat (- i)) else show_nat (nat i))"

text \<open>
  \<^verbatim>\<open>x.toFixed(4)\<close> on a real: the nearest multiple of 1/10000, the larger one on a
  tie of the absolute value, printed with four decimals.
\<close>

definition toFixed4 :: "real \<Rightarrow> string" where
  "toFixed4 x =
     (let n = nat \<lfloor>\<bar>x\<bar> * 10000 + 1 / 2\<rfloor>;
          frac = show_nat (n mod 10000)
      in (if x < 0 then ''-'' else '''') @ show_nat (n div 10000) @ ''.''
           @ replicate (4 - length frac) (CHR ''0'') @ frac)"

subsection \<open>The distance test\<close>

text \<open>
  The inline computation of the four attribute branches:
  \<^verbatim>\<open>Math.sqrt(Math.pow(r.location.lat - currentLocation.lat, 2) +
  Math.pow(r.location.lng - currentLocation.lng, 2)) * 111\<close>, and the test
  \<^verbatim>\<open>distance <= 3\<close>, with the number operations of the runtime.
\<close>

definition distance :: "env \<Rightarrow> latlng \<Rightarrow> restroom \<Rightarrow> real" where
  "distance e cur r =
     numMul e
       (mathSqrt e
          (numAdd e (mathPow e (numSub e (lat (location r)) (lat cur)) 2)
             (mathPow e (numSub e (lng (location r)) (lng cur)) 2)))
       111"

definition within3 :: "env \<Rightarrow> latlng \<Rightarrow> restroom \<Rightarrow> bool" where
  "within3 e cur r = (distance e cur r \<le> 3)"

subsection \<open>The replies\<close>

definition msg_nearby_found :: "nat \<Rightarrow> string \<Rightarrow> string \<Rightarrow> string" where
  "msg_nearby_found count closestName cleanlinessText =
     ''I found '' @ show_nat count @ '' restrooms near you. The closest is '' @ closestName
       @ '', which is '' @ cleanlinessText
       @ '' for cleanliness. Would you like to see them on the map?''"

definition msg_nearby_need_location :: string where
  "msg_nearby_need_location =
     ''I'd like to find restrooms near you, but I need permission to access your location. Please enable location services and try again.''"

definition msg_nearby_expand :: string where
  "msg_nearby_expand =
     ''I couldn't find any restrooms in your immediate vicinity. Would you like me to expand the search radius?''"

definition msg_clean_found :: "nat \<Rightarrow> string \<Rightarrow> int \<Rightarrow> string" where
  "msg_clean_found n topName topScore =
     ''I found '' @ show_nat n @ '' highly-rated clean restrooms near you. The top rated is ''
       @ topName @ '' with a cleanliness score of '' @ show_int topScore
       @ ''/100. Would you like me to show them on the map?''"

definition msg_clean_expand :: string where
  "msg_clean_expand =
     ''I couldn't find any highly-rated clean restrooms in your immediate vicinity. Would you like me to expand the search radius?''"

definition msg_clean_need_location :: string where
  "msg_clean_need_location =
     ''I can help you find clean restrooms, but I need your location to provide the best results. Please enable location services.''"

definition msg_accessible_found :: "nat \<Rightarrow> string" where
  "msg_accessible_found n =
     ''I found '' @ show_nat n
       @ '' accessible restrooms near you. Would you like me to show them on the map?''"

definition msg_accessible_expand :: string where
  "msg_accessible_expand =
     ''I couldn't find any accessible restrooms in your immediate vicinity. Would you like me to expand the search radius?''"

definition msg_accessible_need_location :: string where
  "msg_accessible_need_location =
     ''I can help you find accessible restrooms, but I need your location to provide the best results. Please enable location services.''"

definition msg_baby_found :: "nat \<Rightarrow> string" where
  "msg_baby_found n =
     ''I found '' @ show_nat n
       @ '' restrooms with baby changing facilities near you. Would you like me to show them on the map?''"

definition msg_baby_expand :: string where
  "msg_baby_expand =
     ''I couldn't find any restrooms with baby changing facilities in your immediate vicinity. Would you like me to expand the search radius?''"

definition msg_baby_need_location :: string where
  "msg_baby_need_location =
     ''I can help you find restrooms with baby changing facilities, but I need your location to provide the best results.''"

definition msg_gender_found :: "nat \<Rightarrow> string" where
  "msg_gender_found n =
     ''I found '' @ show_nat n
       @ '' gender-neutral restrooms near you. Would you like me to show them on the map?''"

definition msg_gender_expand :: string where
  "msg_gender_expand =
     ''I couldn't find any gender-neutral restrooms in your immediate vicinity. Would you like me to expand the search radius?''"

definition msg_gender_need_location :: string where
  "msg_gender_need_location =
     ''I can help you find gender-neutral restrooms, but I need your location to provide the best results.''"

definition msg_help :: string where
  "msg_help =
     ''You can ask me to find restrooms near you, get information about specific features like cleanliness ratings, accessibility, baby changing facilities, or gender-neutral options. I can also help you navigate to the nearest restroom. What would you like to know?''"

definition msg_location_echo :: "latlng \<Rightarrow> string" where
  "msg_location_echo cur =
     ''You're currently located at approximately latitude '' @ toFixed4 (lat cur)
       @ '' and longitude '' @ toFixed4 (lng cur)
       @ ''. This appears to be in the Coimbatore area. I can help find restrooms near this location.''"

definition msg_location_unknown :: string where
  "msg_location_unknown =
     ''I don't currently have access to your location. Please enable location services so I can provide better assistance.''"

definition msg_fallback :: string where
  "msg_fallback =
     ''I'm here to help you find and locate restrooms. You can ask about nearby restrooms, clean facilities, accessible options, baby changing stations, or gender-neutral bathrooms. How can I assist you today?''"

subsection \<open>The keyword tests, in the order of the source\<close>

definition asksNearby :: "string \<Rightarrow> bool" where
  "asksNearby normalizedQuery =
     (includesStr normalizedQuery ''restroom'' \<or> includesStr normalizedQuery ''bathroom''
        \<or> includesStr normalizedQuery ''toilet'')"

definition asksClean :: "string \<Rightarrow> bool" where
  "asksClean normalizedQuery =
     (includesStr normalizedQuery ''clean'' \<or> includesStr normalizedQuery ''hygienic'')"

definition asksAccessible :: "string \<Rightarrow> bool" where
  "asksAccessible normalizedQuery =
     (includesStr normalizedQuery ''accessible'' \<or> includesStr normalizedQuery ''disability'')"

definition asksBaby :: "string \<Rightarrow> bool" where
  "asksBaby normalizedQuery =
     (includesStr normalizedQuery ''baby'' \<or> includesStr normalizedQuery ''changing'')"

definition asksGender :: "string \<Rightarrow> bool" where
  "asksGender normalizedQuery =
     (includesStr normalizedQuery ''gender'' \<or> includesStr normalizedQuery ''neutral'')"

definition asksHelp :: "string \<Rightarrow> bool" where
  "asksHelp normalizedQuery = includesStr normalizedQuery ''help''"

definition asksLocation :: "string \<Rightarrow> bool" where
  "asksLocation normalizedQuery =
     (includesStr normalizedQuery ''location'' \<or> includesStr normalizedQuery ''where am i'')"

subsection \<open>The classifier\<close>

text \<open>The lists computed before the branches: lines 119 to 127.\<close>

definition allRestrooms :: "env \<Rightarrow> restroom list" where
  "allRestrooms e = getAllRestrooms e @ getUserRestrooms e"

definition nearbyRestrooms :: "env \<Rightarrow> chatbot \<Rightarrow> restroom list" where
  "nearbyRestrooms e st =
     (if hasLocationPermission st
      then getRestroomsByLocation e (lat (currentLocation st)) (lng (currentLocation st)) 2
             @ getNearbyRestrooms e (lat (currentLocation st)) (lng (currentLocation st)) 2
      else [])"

text \<open>The branch of restroom, bathroom, toilet: lines 134 to 147.\<close>

definition cleanlinessText :: "string \<Rightarrow> string" where
  "cleanlinessText cleanlinessRating =
     (if cleanlinessRating = ''high'' then ''highly rated''
      else if cleanlinessRating = ''medium'' then ''moderately rated''
      else ''lower rated'')"

definition nearbyBranch :: "env \<Rightarrow> chatbot \<Rightarrow> string \<Rightarrow> string \<times> string list" where
  "nearbyBranch e st query =
     (if length (nearbyRestrooms e st) > 0 then
        (let count = length (nearbyRestrooms e st);
             closest = nearbyRestrooms e st ! 0;
             cleanlinessRating = getCleanlinessTier e (score (cleanliness closest))
         in (msg_nearby_found count (name closest) (cleanlinessText cleanlinessRating),
             [query]))
      else if \<not> hasLocationPermission st then (msg_nearby_need_location, [])
      else (msg_nearby_expand, []))"

text \<open>The branch of clean, hygienic: lines 149 to 168.\<close>

definition cleanRestrooms :: "env \<Rightarrow> restroom list" where
  "cleanRestrooms e = filter (\<lambda>r. score (cleanliness r) \<ge> 85) (allRestrooms e)"

definition nearbyCleanRestrooms :: "env \<Rightarrow> chatbot \<Rightarrow> restroom list" where
  "nearbyCleanRestrooms e st = filter (within3 e (currentLocation st)) (cleanRestrooms e)"

definition cleanBranch :: "env \<Rightarrow> chatbot \<Rightarrow> string \<times> string list" where
  "cleanBranch e st =
     (if hasLocationPermission st \<and> length (cleanRestrooms e) > 0 then
        (if length (nearbyCleanRestrooms e st) > 0 then
           (msg_clean_found (length (nearbyCleanRestrooms e st))
              (name (nearbyCleanRestrooms e st ! 0))
              (score (cleanliness (nearbyCleanRestrooms e st ! 0))),
            [''clean restrooms''])
         else (msg_clean_expand, []))
      else (msg_clean_need_location, []))"

text \<open>The branch of accessible, disability: lines 170 to 189.\<close>

definition accessibleRestrooms :: "env \<Rightarrow> restroom list" where
  "accessibleRestrooms e = filter accessibility (allRestrooms e)"

definition nearbyAccessible :: "env \<Rightarrow> chatbot \<Rightarrow> restroom list" where
  "nearbyAccessible e st = filter (within3 e (currentLocation st)) (accessibleRestrooms e)"

definition accessibleBranch :: "env \<Rightarrow> chatbot \<Rightarrow> string \<times> string list" where
  "accessibleBranch e st =
     (if hasLocationPermission st \<and> length (accessibleRestrooms e) > 0 then
        (if length (nearbyAccessible e st) > 0 then
           (msg_accessible_found (length (nearbyAccessible e st)), [''accessible''])
         else (msg_accessible_expand, []))
      else (msg_accessible_need_location, []))"

text \<open>The branch of baby, changing: lines 191 to 210.\<close>

definition babyChangingRestrooms :: "env \<Rightarrow> restroom list" where
  "babyChangingRestrooms e = filter babyChanging (allRestrooms e)"

definition nearbyBabyChanging :: "env \<Rightarrow> chatbot \<Rightarrow> restroom list" where
  "nearbyBabyChanging e st = filter (within3 e (currentLocation st)) (babyChangingRestrooms e)"

definition babyBranch :: "env \<Rightarrow> chatbot \<Rightarrow> string \<times> string list" where
  "babyBranch e st =
     (if hasLocationPermission st \<and> length (babyChangingRestrooms e) > 0 then
        (if length (nearbyBabyChanging e st) > 0 then
           (msg_baby_found (length (nearbyBabyChanging e st)), [''baby changing''])
         else (msg_baby_expand, []))
      else (msg_baby_need_location, []))"

text \<open>The branch of gender, neutral: lines 212 to 231.\<close>

definition genderNeutralRestrooms :: "env \<Rightarrow> restroom list" where
  "genderNeutralRestrooms e = filter genderNeutral (allRestrooms e)"

definition nearbyGenderNeutral :: "env \<Rightarrow> chatbot \<Rightarrow> restroom list" where
  "nearbyGenderNeutral e st = filter (within3 e (currentLocation st)) (genderNeutralRestrooms e)"

definition genderBranch :: "env \<Rightarrow> chatbot \<Rightarrow> string \<times> string list" where
  "genderBranch e st =
     (if hasLocationPermission st \<and> length (genderNeutralRestrooms e) > 0 then
        (if length (nearbyGenderNeutral e st) > 0 then
           (msg_gender_found (length (nearbyGenderNeutral e st)), [''gender neutral''])
         else (msg_gender_expand, []))
      else (msg_gender_need_location, []))"

text \<open>The branch of location, where am i: lines 235 to 239.\<close>

definition locationBranch :: "chatbot \<Rightarrow> string \<times> string list" where
  "locationBranch st =
     (if hasLocationPermission st then (msg_location_echo (currentLocation st), [])
      else (msg_location_unknown, []))"

text \<open>
  \<^verbatim>\<open>processUserQuery\<close>: the reply and the calls of \<^verbatim>\<open>onFindNearbyRestrooms\<close>.
\<close>

definition processUserQuery :: "env \<Rightarrow> chatbot \<Rightarrow> string \<Rightarrow> string \<times> string list" where
  "processUserQuery e st query =
     (let normalizedQuery = toLowerCase query in
      if asksNearby normalizedQuery then nearbyBranch e st query
      else if asksClean normalizedQuery then cleanBranch e st
      else if asksAccessible normalizedQuery then accessibleBranch e st
      else if asksBaby normalizedQuery then babyBranch e st
      else if asksGender normalizedQuery then genderBranch e st
      else if asksHelp normalizedQuery then (msg_help, [])
      else if asksLocation normalizedQuery then locationBranch st
      else (msg_fallback, []))"

text \<open>
  \<^verbatim>\<open>handleSendMessage\<close>: a message that is empty once trimmed is dropped before the
  classifier runs (\<open>None\<close>: no reply and no call); any other message is classified.
\<close>

definition handleSendMessage ::
  "env \<Rightarrow> chatbot \<Rightarrow> string \<Rightarrow> (string \<times> string list) option" where
  "handleSendMessage e st inputMessage =
     (if trim inputMessage = [] then None else Some (processUserQuery e st inputMessage))"

subsection \<open>Intents\<close>

text \<open>
  The spec's name for the branch a query takes: the first keyword test that succeeds, in
  the order of \<^verbatim>\<open>processUserQuery\<close>.
\<close>

datatype intent =
  Nearby | Clean | Accessible | BabyChanging | GenderNeutral | Help | Location | Fallback

definition intentOf :: "string \<Rightarrow> intent" where
  "intentOf normalizedQuery =
     (if asksNearby normalizedQuery then Nearby
      else if asksClean normalizedQuery then Clean
      else if asksAccessible normalizedQuery then Accessible
      else if asksBaby normalizedQuery then BabyChanging
      else if asksGender normalizedQuery then GenderNeutral
      else if asksHelp normalizedQuery then Help
      else if asksLocation normalizedQuery then Location
      else Fallback)"

subsection \<open>The scenarios of the spec\<close>

text \<open>
  Modelled from the spec: \<^verbatim>\<open>getRestroomsByLocation\<close> and \<^verbatim>\<open>getNearbyRestrooms\<close>
  are not among the sources. The spec describes them as the distance filter of the
  generic search, with the radius they are given, over the static catalogue and over
  the user-contributed entries; the distance is the flat-earth one of the classifier.
\<close>

definition withinRadius :: "real \<Rightarrow> real \<Rightarrow> real \<Rightarrow> restroom list \<Rightarrow> restroom list" where
  "withinRadius la lo radius rs =
     filter (\<lambda>r. sqrt ((lat (location r) - la)\<^sup>2 + (lng (location r) - lo)\<^sup>2) * 111
                 \<le> radius) rs"

text \<open>
  Modelled from the spec: \<^verbatim>\<open>getCleanlinessTier\<close> is not among the sources. The
  glossary gives its three levels, not its cut-offs: 80 and 60 are an assumption, and
  only the wording of a reply of the generic search depends on them.
\<close>

definition tierOf :: "int \<Rightarrow> string" where
  "tierOf s = (if s \<ge> 80 then ''high'' else if s \<ge> 60 then ''medium'' else ''low'')"

text \<open>
  The environment of the scenarios: the helpers above over a catalogue and the
  user-contributed entries, and the exact number operations (the power for an exponent
  that is a natural number). The records of the scenarios are far from the radius of
  3 km, where the rounding of the doubles does not change the test.
\<close>

definition exactSqrt :: "real \<Rightarrow> real" where
  "exactSqrt x = sqrt x"

declare exactSqrt_def [code del]

definition catalogueEnv :: "(int \<Rightarrow> string) \<Rightarrow> restroom list \<Rightarrow> restroom list \<Rightarrow> env" where
  "catalogueEnv tier catalogue userAdded =
     \<lparr>getAllRestrooms = catalogue,
      getUserRestrooms = userAdded,
      getRestroomsByLocation = (\<lambda>la lo radius. withinRadius la lo radius catalogue),
      getNearbyRestrooms = (\<lambda>la lo radius. withinRadius la lo radius userAdded),
      getCleanlinessTier = tier,
      numSub = (\<lambda>a b. a - b),
      mathPow = (\<lambda>a b. a ^ nat \<lfloor>b\<rfloor>),
      numAdd = (\<lambda>a b. a + b),
      mathSqrt = exactSqrt,
      numMul = (\<lambda>a b. a * b)\<rparr>"

text \<open>
  The user of the scenarios stands at (11.0168, 76.9558). Restroom A (score 90) is 0.009
  degrees to the north and restroom B (score 70) 0.009 degrees to the east, each 0.999
  km away. Restroom C (score 88, accessible) is 0.02 degrees to the north, 2.22 km away:
  inside the radius of 3 and outside the radius of 2. Restroom D (score 92, accessible)
  is 0.1 degrees to the north, 11.1 km away. Restroom E (score 75) is 0.002 degrees to
  the north, 0.222 km away.
\<close>

definition userAt :: "bool \<Rightarrow> chatbot" where
  "userAt permission =
     \<lparr>currentLocation = \<lparr>lat = 11.0168, lng = 76.9558\<rparr>,
      hasLocationPermission = permission\<rparr>"

definition restroomA :: restroom where
  "restroomA =
     \<lparr>name = ''A'', location = \<lparr>lat = 11.0258, lng = 76.9558\<rparr>,
      cleanliness = \<lparr>score = 90, reports = 12\<rparr>,
      accessibility = False, babyChanging = False, genderNeutral = False\<rparr>"

definition restroomB :: restroom where
  "restroomB =
     \<lparr>name = ''B'', location = \<lparr>lat = 11.0168, lng = 76.9648\<rparr>,
      cleanliness = \<lparr>score = 70, reports = 5\<rparr>,
      accessibility = False, babyChanging = True, genderNeutral = False\<rparr>"

definition restroomC :: restroom where
  "restroomC =
     \<lparr>name = ''C'', location = \<lparr>lat = 11.0368, lng = 76.9558\<rparr>,
      cleanliness = \<lparr>score = 88, reports = 3\<rparr>,
      accessibility = True, babyChanging = False, genderNeutral = True\<rparr>"

definition restroomD :: restroom where
  "restroomD =
     \<lparr>name = ''D'', location = \<lparr>lat = 11.1168, lng = 76.9558\<rparr>,
      cleanliness = \<lparr>score = 92, reports = 40\<rparr>,
      accessibility = True, babyChanging = True, genderNeutral = True\<rparr>"

definition restroomE :: restroom where
  "restroomE =
     \<lparr>name = ''E'', location = \<lparr>lat = 11.0188, lng = 76.9558\<rparr>,
      cleanliness = \<lparr>score = 75, reports = 1\<rparr>,
      accessibility = False, babyChanging = False, genderNeutral = False\<rparr>"

subsection \<open>The arithmetic of doubles\<close>

text \<open>
  The number operations of a JavaScript runtime: the exact result, rounded to the
  nearest double, on a tie to the one with an even significand. A double has a
  significand of 53 bits; the exponent is bounded below (the subnormal numbers) and,
  here, not above: a result too large for a double is outside the model.
  \<^verbatim>\<open>Math.pow\<close> is given for an exponent that is a natural number.
\<close>

definition roundTiesToEven :: "real \<Rightarrow> int" where
  "roundTiesToEven y =
     (let f = \<lfloor>y\<rfloor> in
      if y - of_int f < 1 / 2 then f
      else if y - of_int f > 1 / 2 then f + 1
      else if even f then f else f + 1)"

definition binade :: "real \<Rightarrow> int" where
  "binade x = max \<lfloor>log 2 \<bar>x\<bar>\<rfloor> (- 1022)"

definition fl :: "real \<Rightarrow> real" where
  "fl x =
     (if x = 0 then 0
      else of_int (roundTiesToEven (x / 2 powi (binade x - 52))) * 2 powi (binade x - 52))"

definition doubleEnv :: "env \<Rightarrow> env" where
  "doubleEnv e =
     e\<lparr>numSub := (\<lambda>a b. fl (a - b)),
       mathPow := (\<lambda>a b. fl (a ^ nat \<lfloor>b\<rfloor>)),
       numAdd := (\<lambda>a b. fl (a + b)),
       mathSqrt := (\<lambda>a. fl (sqrt a)),
       numMul := (\<lambda>a b. fl (a * b))\<rparr>"

text \<open>
  A record at the boundary of the radius of 3 km. The literal
  \<^verbatim>\<open>0.02702702702702703\<close> denotes the double \<open>486875635391405 / 2 ^ 54\<close>; the
  double nearest to its square is \<open>1684326522435131 / 2 ^ 61\<close>. The user stands at
  (0, 0).
\<close>

definition boundaryLat :: real where
  "boundaryLat = 486875635391405 / 2 ^ 54"

definition boundarySquare :: real where
  "boundarySquare = 1684326522435131 / 2 ^ 61"

definition boundaryRestroom :: restroom where
  "boundaryRestroom =
     \<lparr>name = ''V'', location = \<lparr>lat = boundaryLat, lng = 0\<rparr>,
      cleanliness = \<lparr>score = 50, reports = 1\<rparr>,
      accessibility = True, babyChanging = False, genderNeutral = False\<rparr>"

definition userAtOrigin :: chatbot where
  "userAtOrigin =
     \<lparr>currentLocation = \<lparr>lat = 0, lng = 0\<rparr>, hasLocationPermission = True\<rparr>"

section \<open>Evaluation\<close>

text \<open>
  The exact distance test without the square root: \<open>111\<^sup>2 = 12321\<close>. These equations
  let the scenarios be computed.
\<close>

lemma flat_km_le_iff:
  "sqrt (x\<^sup>2 + y\<^sup>2) * 111 \<le> k \<longleftrightarrow> 0 \<le> k \<and> (x\<^sup>2 + y\<^sup>2) * 12321 \<le> k\<^sup>2"
proof -
  define d where "d = x\<^sup>2 + y\<^sup>2"
  have d0: "0 \<le> d" by (simp add: d_def)
  have "sqrt d * 111 \<le> k \<longleftrightarrow> 0 \<le> k \<and> d * 12321 \<le> k\<^sup>2"
  proof (cases "0 \<le> k")
    case True
    have "sqrt (d * 12321) = sqrt d * 111"
      using real_sqrt_abs [of 111] by (simp add: real_sqrt_mult)
    moreover have "sqrt (k\<^sup>2) = k"
      using True by simp
    ultimately have "sqrt d * 111 \<le> k \<longleftrightarrow> sqrt (d * 12321) \<le> sqrt (k\<^sup>2)"
      by simp
    then show ?thesis
      using True by (simp only: real_sqrt_le_iff simp_thms)
  next
    case False
    have "0 \<le> sqrt d * 111" using d0 by simp
    with False show ?thesis by linarith
  qed
  then show ?thesis by (simp add: d_def)
qed

lemma withinRadius_code [code]:
  "withinRadius la lo radius rs =
     filter (\<lambda>r. 0 \<le> radius \<and>
        ((lat (location r) - la)\<^sup>2 + (lng (location r) - lo)\<^sup>2) * 12321 \<le> radius\<^sup>2) rs"
  by (simp add: withinRadius_def flat_km_le_iff)

lemma catalogueEnv_sel:
  "getAllRestrooms (catalogueEnv t c u) = c"
  "getUserRestrooms (catalogueEnv t c u) = u"
  "getRestroomsByLocation (catalogueEnv t c u) la lo k = withinRadius la lo k c"
  "getNearbyRestrooms (catalogueEnv t c u) la lo k = withinRadius la lo k u"
  "getCleanlinessTier (catalogueEnv t c u) = t"
  by (simp_all add: catalogueEnv_def)

lemma distance_catalogueEnv:
  "distance (catalogueEnv t c u) cur r =
     sqrt ((lat (location r) - lat cur)\<^sup>2 + (lng (location r) - lng cur)\<^sup>2) * 111"
  by (simp add: distance_def catalogueEnv_def exactSqrt_def)

lemma distance_catalogueEnv_le:
  "distance (catalogueEnv t c u) cur r \<le> k \<longleftrightarrow>
     0 \<le> k \<and>
     ((lat (location r) - lat cur)\<^sup>2 + (lng (location r) - lng cur)\<^sup>2) * 12321 \<le> k\<^sup>2"
  by (simp only: distance_catalogueEnv flat_km_le_iff)

lemma within3_catalogueEnv:
  "within3 (catalogueEnv t c u) cur r \<longleftrightarrow>
     ((lat (location r) - lat cur)\<^sup>2 + (lng (location r) - lng cur)\<^sup>2) * 12321 \<le> 9"
  by (simp add: within3_def distance_catalogueEnv flat_km_le_iff)

text \<open>The records of the scenarios: their attributes, and which are within 3 km.\<close>

lemma scenario_records:
  "name restroomA = ''A''" "score (cleanliness restroomA) = 90"
  "\<not> accessibility restroomA" "\<not> babyChanging restroomA" "\<not> genderNeutral restroomA"
  "name restroomB = ''B''" "score (cleanliness restroomB) = 70"
  "\<not> accessibility restroomB" "babyChanging restroomB" "\<not> genderNeutral restroomB"
  "name restroomC = ''C''" "score (cleanliness restroomC) = 88"
  "accessibility restroomC" "\<not> babyChanging restroomC" "genderNeutral restroomC"
  "name restroomD = ''D''" "score (cleanliness restroomD) = 92"
  "accessibility restroomD" "babyChanging restroomD" "genderNeutral restroomD"
  "name restroomE = ''E''" "score (cleanliness restroomE) = 75"
  "\<not> accessibility restroomE" "\<not> babyChanging restroomE" "\<not> genderNeutral restroomE"
  by (simp_all add: restroomA_def restroomB_def restroomC_def restroomD_def restroomE_def)

lemma userAt_sel:
  "hasLocationPermission (userAt p) = p"
  "lat (currentLocation (userAt p)) = 11.0168"
  "lng (currentLocation (userAt p)) = 76.9558"
  by (simp_all add: userAt_def)

lemma scenario_within3:
  "within3 (catalogueEnv t c u) (currentLocation (userAt p)) restroomA"
  "within3 (catalogueEnv t c u) (currentLocation (userAt p)) restroomB"
  "within3 (catalogueEnv t c u) (currentLocation (userAt p)) restroomC"
  "\<not> within3 (catalogueEnv t c u) (currentLocation (userAt p)) restroomD"
  "within3 (catalogueEnv t c u) (currentLocation (userAt p)) restroomE"
  by (simp_all add: within3_catalogueEnv userAt_def restroomA_def restroomB_def
      restroomC_def restroomD_def restroomE_def power2_eq_square)

lemmas scenario_eval =
  allRestrooms_def cleanRestrooms_def nearbyCleanRestrooms_def accessibleRestrooms_def
  nearbyAccessible_def babyChangingRestrooms_def nearbyBabyChanging_def
  genderNeutralRestrooms_def nearbyGenderNeutral_def catalogueEnv_sel scenario_records
  scenario_within3 userAt_sel(1)

subsection \<open>Rounding to the nearest double\<close>

lemma roundTiesToEven_eqI:
  assumes "of_int n - 1 / 2 < y" and "y < of_int n + 1 / 2"
  shows "roundTiesToEven y = n"
proof (cases "of_int n \<le> y")
  case True
  then have "\<lfloor>y\<rfloor> = n"
    using assms by (intro floor_unique) auto
  then show ?thesis
    using assms by (simp add: roundTiesToEven_def)
next
  case False
  then have "\<lfloor>y\<rfloor> = n - 1"
    using assms by (intro floor_unique) auto
  then show ?thesis
    using assms False by (simp add: roundTiesToEven_def)
qed

text \<open>
  A number between \<open>2 ^ e\<close> and \<open>2 ^ (e + 1)\<close> is rounded to the multiple \<open>n\<close> of
  \<open>2 ^ (e - 52)\<close> that it is less than half a unit away from.
\<close>

lemma fl_eqI:
  assumes "2 powi e \<le> \<bar>x\<bar>" and "\<bar>x\<bar> < 2 powi (e + 1)" and "- 1022 \<le> e"
    and "(of_int n - 1 / 2) * 2 powi (e - 52) < x"
    and "x < (of_int n + 1 / 2) * 2 powi (e - 52)"
  shows "fl x = of_int n * 2 powi (e - 52)"
proof -
  have "(0::real) < 2 powi e"
    by simp
  with assms(1) have pos: "0 < \<bar>x\<bar>"
    by linarith
  then have x0: "x \<noteq> 0"
    by simp
  have p1: "(2::real) powr real_of_int e = 2 powi e"
    by (simp add: powr_real_of_int')
  have p2: "(2::real) powr (real_of_int e + 1) = 2 powi (e + 1)"
    using powr_real_of_int' [of 2 "e + 1"] by simp
  have "\<lfloor>log 2 \<bar>x\<bar>\<rfloor> = e"
    using assms(1,2) pos by (simp add: floor_log_eq_powr_iff p1 p2)
  then have b: "binade x = e"
    using assms(3) by (simp add: binade_def)
  have q: "(0::real) < 2 powi (e - 52)"
    by simp
  have "roundTiesToEven (x / 2 powi (e - 52)) = n"
    using assms(4,5) q by (intro roundTiesToEven_eqI) (simp_all add: field_simps)
  then show ?thesis
    using x0 b by (simp add: fl_def)
qed

lemma fl_zero: "fl 0 = 0"
  by (simp add: fl_def)

text \<open>The operations of the distance test at the record of the boundary.\<close>

lemma fl_boundaryLat: "fl boundaryLat = boundaryLat"
  unfolding boundaryLat_def
  using fl_eqI [of "- 6" "486875635391405 / 2 ^ 54" 7790010166262480]
  by (simp add: power_int_minus field_simps)

lemma fl_boundaryLat_squared: "fl (boundaryLat\<^sup>2) = boundarySquare"
  unfolding boundaryLat_def boundarySquare_def
  using fl_eqI [of "- 11" "(486875635391405 / 2 ^ 54)\<^sup>2" 6737306089740524]
  by (simp add: power_int_minus field_simps)

lemma fl_boundarySquare: "fl boundarySquare = boundarySquare"
  unfolding boundarySquare_def
  using fl_eqI [of "- 11" "1684326522435131 / 2 ^ 61" 6737306089740524]
  by (simp add: power_int_minus field_simps)

lemma fl_sqrt_boundarySquare: "fl (sqrt boundarySquare) = boundaryLat"
proof -
  let ?p = "1684326522435131 / 2 ^ 61 :: real"
  have lo: "2 powi (- 6) \<le> sqrt ?p"
    by (rule real_le_rsqrt) (simp add: power_int_minus field_simps)
  have hi: "sqrt ?p < 2 powi (- 5)"
    by (rule real_less_lsqrt) (simp_all add: power_int_minus field_simps)
  have a: "(of_int 7790010166262480 - 1 / 2) * 2 powi (- 6 - 52) < sqrt ?p"
    by (rule real_less_rsqrt) (simp add: power_int_minus field_simps)
  have b: "sqrt ?p < (of_int 7790010166262480 + 1 / 2) * 2 powi (- 6 - 52)"
    by (rule real_less_lsqrt) (simp_all add: power_int_minus field_simps)
  have s: "\<bar>sqrt ?p\<bar> = sqrt ?p"
    by simp
  have "fl (sqrt ?p) = 486875635391405 / 2 ^ 54"
    using fl_eqI [of "- 6" "sqrt ?p" 7790010166262480] lo hi a b
    by (simp only: s) (simp add: power_int_minus field_simps)
  then show ?thesis
    by (simp only: boundaryLat_def boundarySquare_def)
qed

lemma fl_boundaryLat_times_111: "fl (boundaryLat * 111) = 3"
  unfolding boundaryLat_def
  using fl_eqI [of 1 "486875635391405 / 2 ^ 54 * 111" 6755399441055744]
  by (simp add: power_int_minus field_simps)

lemma boundary_exact_distance: "3 < boundaryLat * 111"
  by (simp add: boundaryLat_def)

lemma doubleEnv_sel:
  "getAllRestrooms (doubleEnv e) = getAllRestrooms e"
  "getUserRestrooms (doubleEnv e) = getUserRestrooms e"
  "numSub (doubleEnv e) a b = fl (a - b)"
  "mathPow (doubleEnv e) a 2 = fl (a\<^sup>2)"
  "numAdd (doubleEnv e) a b = fl (a + b)"
  "mathSqrt (doubleEnv e) a = fl (sqrt a)"
  "numMul (doubleEnv e) a b = fl (a * b)"
  by (simp_all add: doubleEnv_def)

text \<open>The distance test in doubles: every operation is rounded.\<close>

lemma distance_doubleEnv:
  "distance (doubleEnv e) cur r =
     fl (fl (sqrt (fl (fl ((fl (lat (location r) - lat cur))\<^sup>2)
                        + fl ((fl (lng (location r) - lng cur))\<^sup>2))))
         * 111)"
  by (simp only: distance_def doubleEnv_sel)

text \<open>In doubles the distance of the record of the boundary is exactly 3.\<close>

lemma boundary_distance_in_doubles:
  "distance (doubleEnv e) (currentLocation userAtOrigin) boundaryRestroom = 3"
proof -
  have l: "lat (location boundaryRestroom) = boundaryLat" "lng (location boundaryRestroom) = 0"
    "lat (currentLocation userAtOrigin) = 0" "lng (currentLocation userAtOrigin) = 0"
    by (simp_all add: boundaryRestroom_def userAtOrigin_def)
  show ?thesis
    unfolding distance_def doubleEnv_sel l
    by (simp add: fl_zero fl_boundaryLat fl_boundaryLat_squared fl_boundarySquare
        fl_sqrt_boundarySquare fl_boundaryLat_times_111)
qed

section \<open>Facts about the model\<close>

text \<open>\<^verbatim>\<open>includes\<close> is the contiguous-sublist test.\<close>

lemma includesStr_sublist: "includesStr s k \<longleftrightarrow> sublist k s"
  by (induction s) (simp_all add: sublist_Cons_right)

lemma includesStr_iff: "includesStr s k \<longleftrightarrow> (\<exists>p t. s = p @ k @ t)"
  by (simp add: includesStr_sublist sublist_def)

text \<open>The classifier runs the branch of the query's intent.\<close>

lemma processUserQuery_by_intent:
  "processUserQuery e st q =
     (case intentOf (toLowerCase q) of
        Nearby \<Rightarrow> nearbyBranch e st q
      | Clean \<Rightarrow> cleanBranch e st
      | Accessible \<Rightarrow> accessibleBranch e st
      | BabyChanging \<Rightarrow> babyBranch e st
      | GenderNeutral \<Rightarrow> genderBranch e st
      | Help \<Rightarrow> (msg_help, [])
      | Location \<Rightarrow> locationBranch st
      | Fallback \<Rightarrow> (msg_fallback, []))"
  by (simp add: processUserQuery_def intentOf_def)

lemma intentOf_Nearby: "intentOf nq = Nearby \<longleftrightarrow> asksNearby nq"
  by (simp add: intentOf_def)

lemma intentOf_Clean: "intentOf nq = Clean \<longleftrightarrow> \<not> asksNearby nq \<and> asksClean nq"
  by (simp add: intentOf_def)

lemma intentOf_Accessible:
  "intentOf nq = Accessible \<longleftrightarrow> \<not> asksNearby nq \<and> \<not> asksClean nq \<and> asksAccessible nq"
  by (simp add: intentOf_def)

lemma intentOf_empty: "intentOf (toLowerCase []) = Fallback"
  by (simp add: intentOf_def toLowerCase_def asksNearby_def asksClean_def asksAccessible_def
      asksBaby_def asksGender_def asksHelp_def asksLocation_def)

text \<open>The replies of one branch differ from each other.\<close>

lemma found_not_expand:
  "msg_clean_found n nm sc \<noteq> msg_clean_expand"
  "msg_accessible_found n \<noteq> msg_accessible_expand"
  "msg_baby_found n \<noteq> msg_baby_expand"
  "msg_gender_found n \<noteq> msg_gender_expand"
  by (simp_all add: msg_clean_found_def msg_clean_expand_def msg_accessible_found_def
      msg_accessible_expand_def msg_baby_found_def msg_baby_expand_def msg_gender_found_def
      msg_gender_expand_def)

lemma need_location_not_expand:
  "msg_clean_need_location \<noteq> msg_clean_expand"
  "msg_accessible_need_location \<noteq> msg_accessible_expand"
  "msg_baby_need_location \<noteq> msg_baby_expand"
  "msg_gender_need_location \<noteq> msg_gender_expand"
  by (simp_all add: msg_clean_need_location_def msg_clean_expand_def
      msg_accessible_need_location_def msg_accessible_expand_def msg_baby_need_location_def
      msg_baby_expand_def msg_gender_need_location_def msg_gender_expand_def)

text \<open>The templates of the replies, at sample arguments.\<close>

lemma found_replies_text:
  "msg_nearby_found 12 ''Central Park'' ''highly rated'' =
     ''I found 12 restrooms near you. The closest is Central Park, which is highly rated for cleanliness. Would you like to see them on the map?''"
  "msg_clean_found 3 ''Mall'' 100 =
     ''I found 3 highly-rated clean restrooms near you. The top rated is Mall with a cleanliness score of 100/100. Would you like me to show them on the map?''"
  "msg_accessible_found 1 =
     ''I found 1 accessible restrooms near you. Would you like me to show them on the map?''"
  "msg_baby_found 10 =
     ''I found 10 restrooms with baby changing facilities near you. Would you like me to show them on the map?''"
  "msg_gender_found 207 =
     ''I found 207 gender-neutral restrooms near you. Would you like me to show them on the map?''"
  "cleanlinessText ''high'' = ''highly rated''"
  "cleanlinessText ''medium'' = ''moderately rated''"
  "cleanlinessText ''low'' = ''lower rated''"
  by code_simp+

lemma location_echo_text:
  "msg_location_echo \<lparr>lat = 11.0168, lng = 76.9558\<rparr> =
     ''You're currently located at approximately latitude 11.0168 and longitude 76.9558. This appears to be in the Coimbatore area. I can help find restrooms near this location.''"
  by (simp add: msg_location_echo_def toFixed4_def Let_def show_nat.simps)

section \<open>The claims\<close>

subsection \<open>The empty query\<close>

text \<open>
  Claim C9. On the empty query the classifier matches no keyword: it takes the final
  \<^verbatim>\<open>else\<close> branch, returns the static fallback reply and makes no call to
  \<^verbatim>\<open>onFindNearbyRestrooms\<close>, exactly as for any other query without a keyword. The
  model is a total function: there is no exception to raise on this path.
\<close>

theorem empty_query_fallback:
  "processUserQuery e st '''' = (msg_fallback, []) \<and>
   intentOf (toLowerCase '''') = Fallback \<and>
   (intentOf (toLowerCase q) = Fallback \<longrightarrow>
      processUserQuery e st q = processUserQuery e st '''')"
  by (simp add: processUserQuery_by_intent intentOf_empty)

theorem empty_query_fallback_witness:
  "intentOf (toLowerCase ''hello'') = Fallback \<and>
   processUserQuery (catalogueEnv tierOf [restroomA, restroomB] []) (userAt True) ''hello''
     = processUserQuery (catalogueEnv tierOf [restroomA, restroomB] []) (userAt True) '''' \<and>
   processUserQuery (catalogueEnv tierOf [restroomA, restroomB] []) (userAt True) ''''
     = (msg_fallback, [])"
proof -
  have h: "intentOf (toLowerCase ''hello'') = Fallback"
    by code_simp
  show ?thesis
    using h empty_query_fallback
      [of "catalogueEnv tierOf [restroomA, restroomB] []" "userAt True" "''hello''"]
    by simp
qed

text \<open>
  Through the user interface the classifier does not see the empty query:
  \<^verbatim>\<open>handleSendMessage\<close> drops a message that is empty once trimmed.
\<close>

lemma handleSendMessage_blank:
  "handleSendMessage e st '''' = None"
  "handleSendMessage e st ''   '' = None"
  "handleSendMessage e st [CHR 0x20, CHR 0xC2, CHR 0xA0, CHR 0x0A] = None"
proof -
  have "trim '''' = []" "trim ''   '' = []"
    "trim [CHR 0x20, CHR 0xC2, CHR 0xA0, CHR 0x0A] = []"
    by code_simp+
  then show "handleSendMessage e st '''' = None"
    "handleSendMessage e st ''   '' = None"
    "handleSendMessage e st [CHR 0x20, CHR 0xC2, CHR 0xA0, CHR 0x0A] = None"
    by (simp_all add: handleSendMessage_def)
qed

subsection \<open>No location permission\<close>

text \<open>
  Claim C4. Without the location permission, each of the five intents that depend on the
  location (generic nearby, clean, accessible, baby changing, gender neutral) answers
  with its request for the location, whatever the candidates are, and makes no call to
  \<^verbatim>\<open>onFindNearbyRestrooms\<close>.
\<close>

theorem no_permission_asks_for_location:
  assumes "\<not> hasLocationPermission st"
  shows "(intentOf (toLowerCase q) = Nearby \<longrightarrow>
            processUserQuery e st q = (msg_nearby_need_location, [])) \<and>
         (intentOf (toLowerCase q) = Clean \<longrightarrow>
            processUserQuery e st q = (msg_clean_need_location, [])) \<and>
         (intentOf (toLowerCase q) = Accessible \<longrightarrow>
            processUserQuery e st q = (msg_accessible_need_location, [])) \<and>
         (intentOf (toLowerCase q) = BabyChanging \<longrightarrow>
            processUserQuery e st q = (msg_baby_need_location, [])) \<and>
         (intentOf (toLowerCase q) = GenderNeutral \<longrightarrow>
            processUserQuery e st q = (msg_gender_need_location, []))"
  using assms
  by (simp add: processUserQuery_by_intent nearbyBranch_def nearbyRestrooms_def
      cleanBranch_def accessibleBranch_def babyBranch_def genderBranch_def)

theorem no_permission_asks_for_location_witness:
  "\<not> hasLocationPermission (userAt False) \<and>
   intentOf (toLowerCase ''Is there a TOILET nearby?'') = Nearby \<and>
   processUserQuery (catalogueEnv tierOf [restroomA, restroomB, restroomC] []) (userAt False)
     ''Is there a TOILET nearby?'' = (msg_nearby_need_location, []) \<and>
   intentOf (toLowerCase ''somewhere clean'') = Clean \<and>
   processUserQuery (catalogueEnv tierOf [restroomA, restroomB, restroomC] []) (userAt False)
     ''somewhere clean'' = (msg_clean_need_location, []) \<and>
   intentOf (toLowerCase ''Accessible, please'') = Accessible \<and>
   processUserQuery (catalogueEnv tierOf [restroomA, restroomB, restroomC] []) (userAt False)
     ''Accessible, please'' = (msg_accessible_need_location, []) \<and>
   intentOf (toLowerCase ''somewhere for a baby'') = BabyChanging \<and>
   processUserQuery (catalogueEnv tierOf [restroomA, restroomB, restroomC] []) (userAt False)
     ''somewhere for a baby'' = (msg_baby_need_location, []) \<and>
   intentOf (toLowerCase ''gender neutral'') = GenderNeutral \<and>
   processUserQuery (catalogueEnv tierOf [restroomA, restroomB, restroomC] []) (userAt False)
     ''gender neutral'' = (msg_gender_need_location, [])"
proof -
  let ?E = "catalogueEnv tierOf [restroomA, restroomB, restroomC] []"
  have p: "\<not> hasLocationPermission (userAt False)"
    by (simp add: userAt_def)
  have i1: "intentOf (toLowerCase ''Is there a TOILET nearby?'') = Nearby"
    by code_simp
  have i2: "intentOf (toLowerCase ''somewhere clean'') = Clean"
    by code_simp
  have i3: "intentOf (toLowerCase ''Accessible, please'') = Accessible"
    by code_simp
  have i4: "intentOf (toLowerCase ''somewhere for a baby'') = BabyChanging"
    by code_simp
  have i5: "intentOf (toLowerCase ''gender neutral'') = GenderNeutral"
    by code_simp
  note r =
    no_permission_asks_for_location [OF p, of "''Is there a TOILET nearby?''" ?E,
      THEN conjunct1, THEN mp, OF i1]
    no_permission_asks_for_location [OF p, of "''somewhere clean''" ?E,
      THEN conjunct2, THEN conjunct1, THEN mp, OF i2]
    no_permission_asks_for_location [OF p, of "''Accessible, please''" ?E,
      THEN conjunct2, THEN conjunct2, THEN conjunct1, THEN mp, OF i3]
    no_permission_asks_for_location [OF p, of "''somewhere for a baby''" ?E,
      THEN conjunct2, THEN conjunct2, THEN conjunct2, THEN conjunct1, THEN mp, OF i4]
    no_permission_asks_for_location [OF p, of "''gender neutral''" ?E,
      THEN conjunct2, THEN conjunct2, THEN conjunct2, THEN conjunct2, THEN mp, OF i5]
  show ?thesis
    by (intro conjI) (rule p i1 i2 i3 i4 i5 r)+
qed

subsection \<open>The labels passed to the callback\<close>

text \<open>
  Claim C10. One run of the classifier calls \<^verbatim>\<open>onFindNearbyRestrooms\<close> at most
  once, and the argument of the call is the raw query for the generic nearby intent,
  and the literal label of the intent for the clean, accessible, baby-changing and
  gender-neutral intents; no other argument is ever passed.
\<close>

theorem trigger_labels:
  "length (snd (processUserQuery e st q)) \<le> 1 \<and>
   (\<forall>l \<in> set (snd (processUserQuery e st q)).
      (intentOf (toLowerCase q) = Nearby \<and> l = q) \<or>
      (intentOf (toLowerCase q) = Clean \<and> l = ''clean restrooms'') \<or>
      (intentOf (toLowerCase q) = Accessible \<and> l = ''accessible'') \<or>
      (intentOf (toLowerCase q) = BabyChanging \<and> l = ''baby changing'') \<or>
      (intentOf (toLowerCase q) = GenderNeutral \<and> l = ''gender neutral''))"
  by (cases "intentOf (toLowerCase q)")
    (simp_all add: processUserQuery_by_intent nearbyBranch_def cleanBranch_def
      accessibleBranch_def babyBranch_def genderBranch_def locationBranch_def Let_def)

theorem trigger_labels_witness:
  "snd (processUserQuery (catalogueEnv tierOf [restroomA, restroomB, restroomC] [])
          (userAt True) ''Accessible, please'') = [''accessible''] \<and>
   intentOf (toLowerCase ''Accessible, please'') = Accessible \<and>
   length (snd (processUserQuery (catalogueEnv tierOf [restroomA, restroomB, restroomC] [])
                  (userAt True) ''Accessible, please'')) \<le> 1"
proof -
  have i: "intentOf (toLowerCase ''Accessible, please'') = Accessible"
    by code_simp
  have b: "accessibleBranch (catalogueEnv tierOf [restroomA, restroomB, restroomC] [])
             (userAt True) = (msg_accessible_found 1, [''accessible''])"
    by (simp add: accessibleBranch_def scenario_eval)
  have v: "snd (processUserQuery (catalogueEnv tierOf [restroomA, restroomB, restroomC] [])
                  (userAt True) ''Accessible, please'') = [''accessible'']"
    by (simp add: processUserQuery_by_intent i b)
  show ?thesis
    using v trigger_labels [of "catalogueEnv tierOf [restroomA, restroomB, restroomC] []"
        "userAt True" "''Accessible, please''"]
    by simp
qed

subsection \<open>An empty pre-filter\<close>

text \<open>
  Claim C6. In each attribute branch (clean, accessible, baby changing, gender neutral)
  the test of the location permission and the test that the attribute pre-filter is not
  empty are one conjunction. So with the permission and no candidate passing the
  pre-filter, the reply is the branch's request for the location, not its expand-radius
  reply; the expand-radius reply is returned exactly when the permission is there, the
  pre-filter is not empty and the 3 km filter leaves nothing of it.
\<close>

theorem empty_prefilter_asks_for_location:
  "(intentOf (toLowerCase q) = Clean \<longrightarrow>
      (hasLocationPermission st \<and> (\<forall>r \<in> set (allRestrooms e). \<not> score (cleanliness r) \<ge> 85)
         \<longrightarrow> processUserQuery e st q = (msg_clean_need_location, [])) \<and>
      (fst (processUserQuery e st q) = msg_clean_expand \<longleftrightarrow>
         hasLocationPermission st \<and> cleanRestrooms e \<noteq> [] \<and> nearbyCleanRestrooms e st = [])) \<and>
   (intentOf (toLowerCase q) = Accessible \<longrightarrow>
      (hasLocationPermission st \<and> (\<forall>r \<in> set (allRestrooms e). \<not> accessibility r)
         \<longrightarrow> processUserQuery e st q = (msg_accessible_need_location, [])) \<and>
      (fst (processUserQuery e st q) = msg_accessible_expand \<longleftrightarrow>
         hasLocationPermission st \<and> accessibleRestrooms e \<noteq> [] \<and> nearbyAccessible e st = [])) \<and>
   (intentOf (toLowerCase q) = BabyChanging \<longrightarrow>
      (hasLocationPermission st \<and> (\<forall>r \<in> set (allRestrooms e). \<not> babyChanging r)
         \<longrightarrow> processUserQuery e st q = (msg_baby_need_location, [])) \<and>
      (fst (processUserQuery e st q) = msg_baby_expand \<longleftrightarrow>
         hasLocationPermission st \<and> babyChangingRestrooms e \<noteq> [] \<and>
         nearbyBabyChanging e st = [])) \<and>
   (intentOf (toLowerCase q) = GenderNeutral \<longrightarrow>
      (hasLocationPermission st \<and> (\<forall>r \<in> set (allRestrooms e). \<not> genderNeutral r)
         \<longrightarrow> processUserQuery e st q = (msg_gender_need_location, [])) \<and>
      (fst (processUserQuery e st q) = msg_gender_expand \<longleftrightarrow>
         hasLocationPermission st \<and> genderNeutralRestrooms e \<noteq> [] \<and>
         nearbyGenderNeutral e st = []))"
proof -
  have c: "(\<forall>r \<in> set (allRestrooms e). \<not> score (cleanliness r) \<ge> 85) \<longleftrightarrow> cleanRestrooms e = []"
    by (simp add: cleanRestrooms_def filter_empty_conv)
  have a: "(\<forall>r \<in> set (allRestrooms e). \<not> accessibility r) \<longleftrightarrow> accessibleRestrooms e = []"
    by (simp add: accessibleRestrooms_def filter_empty_conv)
  have b: "(\<forall>r \<in> set (allRestrooms e). \<not> babyChanging r) \<longleftrightarrow> babyChangingRestrooms e = []"
    by (simp add: babyChangingRestrooms_def filter_empty_conv)
  have g: "(\<forall>r \<in> set (allRestrooms e). \<not> genderNeutral r) \<longleftrightarrow> genderNeutralRestrooms e = []"
    by (simp add: genderNeutralRestrooms_def filter_empty_conv)
  show ?thesis
    unfolding c a b g
    by (auto simp add: processUserQuery_by_intent cleanBranch_def accessibleBranch_def
        babyBranch_def genderBranch_def found_not_expand need_location_not_expand)
qed

theorem empty_prefilter_asks_for_location_witness:
  "hasLocationPermission (userAt True) \<and>
   intentOf (toLowerCase ''somewhere clean'') = Clean \<and>
   intentOf (toLowerCase ''accessible'') = Accessible \<and>
   intentOf (toLowerCase ''somewhere for a baby'') = BabyChanging \<and>
   intentOf (toLowerCase ''gender neutral'') = GenderNeutral \<and>
   cleanRestrooms (catalogueEnv tierOf [restroomE] []) = [] \<and>
   accessibleRestrooms (catalogueEnv tierOf [restroomE] []) = [] \<and>
   babyChangingRestrooms (catalogueEnv tierOf [restroomE] []) = [] \<and>
   genderNeutralRestrooms (catalogueEnv tierOf [restroomE] []) = [] \<and>
   processUserQuery (catalogueEnv tierOf [restroomE] []) (userAt True) ''somewhere clean''
     = (msg_clean_need_location, []) \<and>
   processUserQuery (catalogueEnv tierOf [restroomE] []) (userAt True) ''accessible''
     = (msg_accessible_need_location, []) \<and>
   processUserQuery (catalogueEnv tierOf [restroomE] []) (userAt True) ''somewhere for a baby''
     = (msg_baby_need_location, []) \<and>
   processUserQuery (catalogueEnv tierOf [restroomE] []) (userAt True) ''gender neutral''
     = (msg_gender_need_location, []) \<and>
   cleanRestrooms (catalogueEnv tierOf [restroomE, restroomD] []) = [restroomD] \<and>
   accessibleRestrooms (catalogueEnv tierOf [restroomE, restroomD] []) = [restroomD] \<and>
   babyChangingRestrooms (catalogueEnv tierOf [restroomE, restroomD] []) = [restroomD] \<and>
   genderNeutralRestrooms (catalogueEnv tierOf [restroomE, restroomD] []) = [restroomD] \<and>
   \<not> within3 (catalogueEnv tierOf [restroomE, restroomD] []) (currentLocation (userAt True))
       restroomD \<and>
   fst (processUserQuery (catalogueEnv tierOf [restroomE, restroomD] []) (userAt True)
          ''somewhere clean'') = msg_clean_expand \<and>
   fst (processUserQuery (catalogueEnv tierOf [restroomE, restroomD] []) (userAt True)
          ''accessible'') = msg_accessible_expand \<and>
   fst (processUserQuery (catalogueEnv tierOf [restroomE, restroomD] []) (userAt True)
          ''somewhere for a baby'') = msg_baby_expand \<and>
   fst (processUserQuery (catalogueEnv tierOf [restroomE, restroomD] []) (userAt True)
          ''gender neutral'') = msg_gender_expand"
proof -
  let ?E1 = "catalogueEnv tierOf [restroomE] []"
  let ?E2 = "catalogueEnv tierOf [restroomE, restroomD] []"
  let ?S = "userAt True"
  have p: "hasLocationPermission ?S"
    by (simp add: userAt_def)
  have i: "intentOf (toLowerCase ''somewhere clean'') = Clean"
    "intentOf (toLowerCase ''accessible'') = Accessible"
    "intentOf (toLowerCase ''somewhere for a baby'') = BabyChanging"
    "intentOf (toLowerCase ''gender neutral'') = GenderNeutral"
    by code_simp+
  have a: "allRestrooms ?E1 = [restroomE]"
    by (simp add: allRestrooms_def catalogueEnv_sel)
  have n: "\<forall>r \<in> set (allRestrooms ?E1). \<not> score (cleanliness r) \<ge> 85"
    "\<forall>r \<in> set (allRestrooms ?E1). \<not> accessibility r"
    "\<forall>r \<in> set (allRestrooms ?E1). \<not> babyChanging r"
    "\<forall>r \<in> set (allRestrooms ?E1). \<not> genderNeutral r"
    unfolding a by (simp_all add: restroomE_def)
  have e1: "cleanRestrooms ?E1 = []" "accessibleRestrooms ?E1 = []"
    "babyChangingRestrooms ?E1 = []" "genderNeutralRestrooms ?E1 = []"
    by (simp_all add: scenario_eval)
  have e2: "cleanRestrooms ?E2 = [restroomD]" "accessibleRestrooms ?E2 = [restroomD]"
    "babyChangingRestrooms ?E2 = [restroomD]" "genderNeutralRestrooms ?E2 = [restroomD]"
    by (simp_all add: scenario_eval)
  have f: "nearbyCleanRestrooms ?E2 ?S = []" "nearbyAccessible ?E2 ?S = []"
    "nearbyBabyChanging ?E2 ?S = []" "nearbyGenderNeutral ?E2 ?S = []"
    by (simp_all add: scenario_eval)
  have d: "\<not> within3 ?E2 (currentLocation ?S) restroomD"
    by (rule scenario_within3)
  have ne: "cleanRestrooms ?E2 \<noteq> []" "accessibleRestrooms ?E2 \<noteq> []"
    "babyChangingRestrooms ?E2 \<noteq> []" "genderNeutralRestrooms ?E2 \<noteq> []"
    by (simp_all only: e2 list.distinct not_False_eq_True)
  note C1 = empty_prefilter_asks_for_location [of "''somewhere clean''" ?S ?E1,
      THEN conjunct1, THEN mp, OF i(1)]
  note A1 = empty_prefilter_asks_for_location [of "''accessible''" ?S ?E1,
      THEN conjunct2, THEN conjunct1, THEN mp, OF i(2)]
  note B1 = empty_prefilter_asks_for_location [of "''somewhere for a baby''" ?S ?E1,
      THEN conjunct2, THEN conjunct2, THEN conjunct1, THEN mp, OF i(3)]
  note G1 = empty_prefilter_asks_for_location [of "''gender neutral''" ?S ?E1,
      THEN conjunct2, THEN conjunct2, THEN conjunct2, THEN mp, OF i(4)]
  note C2 = empty_prefilter_asks_for_location [of "''somewhere clean''" ?S ?E2,
      THEN conjunct1, THEN mp, OF i(1)]
  note A2 = empty_prefilter_asks_for_location [of "''accessible''" ?S ?E2,
      THEN conjunct2, THEN conjunct1, THEN mp, OF i(2)]
  note B2 = empty_prefilter_asks_for_location [of "''somewhere for a baby''" ?S ?E2,
      THEN conjunct2, THEN conjunct2, THEN conjunct1, THEN mp, OF i(3)]
  note G2 = empty_prefilter_asks_for_location [of "''gender neutral''" ?S ?E2,
      THEN conjunct2, THEN conjunct2, THEN conjunct2, THEN mp, OF i(4)]
  note r1 =
    C1 [THEN conjunct1, THEN mp, OF conjI [OF p n(1)]]
    A1 [THEN conjunct1, THEN mp, OF conjI [OF p n(2)]]
    B1 [THEN conjunct1, THEN mp, OF conjI [OF p n(3)]]
    G1 [THEN conjunct1, THEN mp, OF conjI [OF p n(4)]]
  note r2 =
    C2 [THEN conjunct2, THEN iffD2, OF conjI [OF p conjI [OF ne(1) f(1)]]]
    A2 [THEN conjunct2, THEN iffD2, OF conjI [OF p conjI [OF ne(2) f(2)]]]
    B2 [THEN conjunct2, THEN iffD2, OF conjI [OF p conjI [OF ne(3) f(3)]]]
    G2 [THEN conjunct2, THEN iffD2, OF conjI [OF p conjI [OF ne(4) f(4)]]]
  show ?thesis
    by (intro conjI) (rule p i e1 e2 d r1 r2)+
qed

subsection \<open>The match that is named\<close>

text \<open>
  Claim C7. When the list of matches is not empty, the generic nearby branch and the
  clean branch reply with the number of matches and name the first element of the list,
  as "the closest" and "the top rated", and call \<^verbatim>\<open>onFindNearbyRestrooms\<close>. The
  list is in the order it was built in: the results of the two helpers one after the
  other for the generic branch, the candidates that pass the two filters, in the order
  of the candidates, for the clean branch. Nothing is sorted by distance or by score.
  (The clean branch computes its list only with the location permission.)
\<close>

theorem first_match_is_named:
  "(intentOf (toLowerCase q) = Nearby \<and> nearbyRestrooms e st \<noteq> [] \<longrightarrow>
      processUserQuery e st q =
        (''I found '' @ show_nat (length (nearbyRestrooms e st))
           @ '' restrooms near you. The closest is '' @ name (hd (nearbyRestrooms e st))
           @ '', which is ''
           @ cleanlinessText
               (getCleanlinessTier e (score (cleanliness (hd (nearbyRestrooms e st)))))
           @ '' for cleanliness. Would you like to see them on the map?'',
         [q])) \<and>
   (intentOf (toLowerCase q) = Clean \<and> hasLocationPermission st
      \<and> nearbyCleanRestrooms e st \<noteq> [] \<longrightarrow>
      processUserQuery e st q =
        (''I found '' @ show_nat (length (nearbyCleanRestrooms e st))
           @ '' highly-rated clean restrooms near you. The top rated is ''
           @ name (hd (nearbyCleanRestrooms e st))
           @ '' with a cleanliness score of ''
           @ show_int (score (cleanliness (hd (nearbyCleanRestrooms e st))))
           @ ''/100. Would you like me to show them on the map?'',
         [''clean restrooms''])) \<and>
   nearbyRestrooms e st =
     (if hasLocationPermission st
      then getRestroomsByLocation e (lat (currentLocation st)) (lng (currentLocation st)) 2
             @ getNearbyRestrooms e (lat (currentLocation st)) (lng (currentLocation st)) 2
      else []) \<and>
   nearbyCleanRestrooms e st =
     filter (\<lambda>r. score (cleanliness r) \<ge> 85 \<and> within3 e (currentLocation st) r)
       (getAllRestrooms e @ getUserRestrooms e)"
proof -
  have n: "nearbyCleanRestrooms e st \<noteq> [] \<Longrightarrow> cleanRestrooms e \<noteq> []"
    by (auto simp add: nearbyCleanRestrooms_def)
  have g: "intentOf (toLowerCase q) = Nearby \<and> nearbyRestrooms e st \<noteq> [] \<longrightarrow>
      processUserQuery e st q =
        (msg_nearby_found (length (nearbyRestrooms e st)) (name (hd (nearbyRestrooms e st)))
           (cleanlinessText
              (getCleanlinessTier e (score (cleanliness (hd (nearbyRestrooms e st)))))),
         [q])"
    by (simp add: processUserQuery_by_intent nearbyBranch_def Let_def hd_conv_nth)
  have c: "intentOf (toLowerCase q) = Clean \<and> hasLocationPermission st
      \<and> nearbyCleanRestrooms e st \<noteq> [] \<longrightarrow>
      processUserQuery e st q =
        (msg_clean_found (length (nearbyCleanRestrooms e st))
           (name (hd (nearbyCleanRestrooms e st)))
           (score (cleanliness (hd (nearbyCleanRestrooms e st)))),
         [''clean restrooms''])"
    using n by (simp add: processUserQuery_by_intent cleanBranch_def hd_conv_nth)
  have o1: "nearbyRestrooms e st =
     (if hasLocationPermission st
      then getRestroomsByLocation e (lat (currentLocation st)) (lng (currentLocation st)) 2
             @ getNearbyRestrooms e (lat (currentLocation st)) (lng (currentLocation st)) 2
      else [])"
    by (simp add: nearbyRestrooms_def)
  have o2: "nearbyCleanRestrooms e st =
     filter (\<lambda>r. score (cleanliness r) \<ge> 85 \<and> within3 e (currentLocation st) r)
       (getAllRestrooms e @ getUserRestrooms e)"
    by (simp add: nearbyCleanRestrooms_def cleanRestrooms_def allRestrooms_def)
  show ?thesis
    by (intro conjI) (rule g [unfolded msg_nearby_found_def] c [unfolded msg_clean_found_def]
        o1 o2)+
qed

theorem first_match_is_named_witness:
  "intentOf (toLowerCase ''toilet?'') = Nearby \<and>
   nearbyRestrooms (catalogueEnv tierOf [restroomB] [restroomE]) (userAt True)
     = [restroomB, restroomE] \<and>
   processUserQuery (catalogueEnv tierOf [restroomB] [restroomE]) (userAt True) ''toilet?''
     = (''I found 2 restrooms near you. The closest is B, which is moderately rated for cleanliness. Would you like to see them on the map?'',
        [''toilet?'']) \<and>
   intentOf (toLowerCase ''somewhere clean'') = Clean \<and>
   hasLocationPermission (userAt True) \<and>
   nearbyCleanRestrooms (catalogueEnv tierOf [restroomC, restroomB, restroomA] [])
     (userAt True) = [restroomC, restroomA] \<and>
   processUserQuery (catalogueEnv tierOf [restroomC, restroomB, restroomA] []) (userAt True)
       ''somewhere clean''
     = (''I found 2 highly-rated clean restrooms near you. The top rated is C with a cleanliness score of 88/100. Would you like me to show them on the map?'',
        [''clean restrooms''])"
proof -
  let ?E1 = "catalogueEnv tierOf [restroomB] [restroomE]"
  let ?E2 = "catalogueEnv tierOf [restroomC, restroomB, restroomA] []"
  let ?S = "userAt True"
  have i1: "intentOf (toLowerCase ''toilet?'') = Nearby"
    by code_simp
  have i2: "intentOf (toLowerCase ''somewhere clean'') = Clean"
    by code_simp
  have p: "hasLocationPermission ?S"
    by (simp add: userAt_def)
  have n1: "nearbyRestrooms ?E1 ?S = [restroomB, restroomE]"
    by code_simp
  have n2: "nearbyCleanRestrooms ?E2 ?S = [restroomC, restroomA]"
    by (simp add: scenario_eval)
  have ne1: "nearbyRestrooms ?E1 ?S \<noteq> []"
    by (simp only: n1 list.distinct not_False_eq_True)
  have ne2: "nearbyCleanRestrooms ?E2 ?S \<noteq> []"
    by (simp only: n2 list.distinct not_False_eq_True)
  note T1 = first_match_is_named [of "''toilet?''" ?E1 ?S, THEN conjunct1, THEN mp,
      OF conjI [OF i1 ne1]]
  note T2 = first_match_is_named [of "''somewhere clean''" ?E2 ?S, THEN conjunct2,
      THEN conjunct1, THEN mp, OF conjI [OF i2 conjI [OF p ne2]]]
  have r1: "processUserQuery ?E1 ?S ''toilet?''
     = (''I found 2 restrooms near you. The closest is B, which is moderately rated for cleanliness. Would you like to see them on the map?'',
        [''toilet?''])"
    unfolding T1 by code_simp
  have r2: "processUserQuery ?E2 ?S ''somewhere clean''
     = (''I found 2 highly-rated clean restrooms near you. The top rated is C with a cleanliness score of 88/100. Would you like me to show them on the map?'',
        [''clean restrooms''])"
    unfolding T2 n2 by code_simp
  show ?thesis
    by (intro conjI) (rule i1 i2 p n1 n2 r1 r2)+
qed

subsection \<open>The two radii\<close>

text \<open>
  Claim C8 says that a candidate of an attribute branch is nearby if and only if
  \<open>sqrt ((\<Delta>lat)\<^sup>2 + (\<Delta>lng)\<^sup>2) * 111 \<le> 3\<close>. The program computes the left-hand side
  in doubles. For the user at (0, 0) and an accessible record at latitude
  0.02702702702702703 and longitude 0, the exact value is greater than 3, by
  \<open>3 / 2 ^ 54\<close>; the doubles give exactly 3, and the record is counted.
\<close>

theorem radius_three_and_two_counterexample:
  "accessibility boundaryRestroom \<and>
   \<not> sqrt ((lat (location boundaryRestroom) - lat (currentLocation userAtOrigin))\<^sup>2
           + (lng (location boundaryRestroom) - lng (currentLocation userAtOrigin))\<^sup>2) * 111
       \<le> 3 \<and>
   hasLocationPermission userAtOrigin \<and>
   processUserQuery (doubleEnv (catalogueEnv tierOf [boundaryRestroom] [])) userAtOrigin
       ''accessible''
     = (''I found 1 accessible restrooms near you. Would you like me to show them on the map?'',
        [''accessible''])"
proof -
  let ?E = "doubleEnv (catalogueEnv tierOf [boundaryRestroom] [])"
  have a: "accessibility boundaryRestroom"
    by (simp add: boundaryRestroom_def)
  have x: "\<not> sqrt ((lat (location boundaryRestroom) - lat (currentLocation userAtOrigin))\<^sup>2
              + (lng (location boundaryRestroom) - lng (currentLocation userAtOrigin))\<^sup>2) * 111
            \<le> 3"
    using boundary_exact_distance
    by (simp add: boundaryRestroom_def userAtOrigin_def boundaryLat_def)
  have p: "hasLocationPermission userAtOrigin"
    by (simp add: userAtOrigin_def)
  have i: "intentOf (toLowerCase ''accessible'') = Accessible"
    by code_simp
  have w: "within3 ?E (currentLocation userAtOrigin) boundaryRestroom"
    by (simp add: within3_def boundary_distance_in_doubles)
  have l: "accessibleRestrooms ?E = [boundaryRestroom]"
    by (simp add: accessibleRestrooms_def allRestrooms_def doubleEnv_sel catalogueEnv_sel a)
  have n: "nearbyAccessible ?E userAtOrigin = [boundaryRestroom]"
    by (simp add: nearbyAccessible_def l w)
  have t: "msg_accessible_found 1
             = ''I found 1 accessible restrooms near you. Would you like me to show them on the map?''"
    by code_simp
  have r: "processUserQuery ?E userAtOrigin ''accessible''
             = (''I found 1 accessible restrooms near you. Would you like me to show them on the map?'',
                [''accessible''])"
    by (simp add: processUserQuery_by_intent i accessibleBranch_def l n p t [symmetric])
  show ?thesis
    by (intro conjI) (rule a x p r)+
qed

text \<open>
  Claim C8, amended. In each attribute branch (clean, accessible, baby changing, gender
  neutral) the candidates counted as nearby are exactly the ones that have the
  attribute and for which the distance as the runtime computes it, the subtraction,
  \<^verbatim>\<open>Math.pow\<close>, the sum, \<^verbatim>\<open>Math.sqrt\<close> and the product by 111 each a rounded
  operation on doubles, is at most 3. The generic nearby branch instead takes the
  results of the two data-source helpers called with the radius 2, as they are, and
  does not apply the test of 3.
\<close>

theorem radius_three_and_two:
  fixes st :: chatbot and e :: env and q :: string
  defines "km \<equiv> \<lambda>r.
             numMul e
               (mathSqrt e
                  (numAdd e
                     (mathPow e (numSub e (lat (location r)) (lat (currentLocation st))) 2)
                     (mathPow e (numSub e (lng (location r)) (lng (currentLocation st))) 2)))
               111"
  defines "cands \<equiv> getAllRestrooms e @ getUserRestrooms e"
  shows
  "(intentOf (toLowerCase q) = Clean \<and> hasLocationPermission st
      \<and> (\<exists>r \<in> set cands. score (cleanliness r) \<ge> 85) \<longrightarrow>
      processUserQuery e st q =
        (let m = filter (\<lambda>r. score (cleanliness r) \<ge> 85 \<and> km r \<le> 3) cands in
         if m = [] then (msg_clean_expand, [])
         else (msg_clean_found (length m) (name (hd m)) (score (cleanliness (hd m))),
               [''clean restrooms'']))) \<and>
   (intentOf (toLowerCase q) = Accessible \<and> hasLocationPermission st
      \<and> (\<exists>r \<in> set cands. accessibility r) \<longrightarrow>
      processUserQuery e st q =
        (let m = filter (\<lambda>r. accessibility r \<and> km r \<le> 3) cands in
         if m = [] then (msg_accessible_expand, [])
         else (msg_accessible_found (length m), [''accessible'']))) \<and>
   (intentOf (toLowerCase q) = BabyChanging \<and> hasLocationPermission st
      \<and> (\<exists>r \<in> set cands. babyChanging r) \<longrightarrow>
      processUserQuery e st q =
        (let m = filter (\<lambda>r. babyChanging r \<and> km r \<le> 3) cands in
         if m = [] then (msg_baby_expand, [])
         else (msg_baby_found (length m), [''baby changing'']))) \<and>
   (intentOf (toLowerCase q) = GenderNeutral \<and> hasLocationPermission st
      \<and> (\<exists>r \<in> set cands. genderNeutral r) \<longrightarrow>
      processUserQuery e st q =
        (let m = filter (\<lambda>r. genderNeutral r \<and> km r \<le> 3) cands in
         if m = [] then (msg_gender_expand, [])
         else (msg_gender_found (length m), [''gender neutral'']))) \<and>
   (intentOf (toLowerCase q) = Nearby \<and> hasLocationPermission st \<longrightarrow>
      processUserQuery e st q =
        (let m = getRestroomsByLocation e (lat (currentLocation st))
                   (lng (currentLocation st)) 2
                 @ getNearbyRestrooms e (lat (currentLocation st))
                     (lng (currentLocation st)) 2 in
         if m = [] then (msg_nearby_expand, [])
         else (msg_nearby_found (length m) (name (hd m))
                 (cleanlinessText (getCleanlinessTier e (score (cleanliness (hd m))))),
               [q])))"
proof -
  have w: "within3 e (currentLocation st) = (\<lambda>r. km r \<le> 3)"
    by (simp add: within3_def distance_def km_def fun_eq_iff)
  have c: "(\<exists>r \<in> set cands. score (cleanliness r) \<ge> 85) \<longleftrightarrow> cleanRestrooms e \<noteq> []"
    by (auto simp add: cleanRestrooms_def allRestrooms_def cands_def filter_empty_conv)
  have a: "(\<exists>r \<in> set cands. accessibility r) \<longleftrightarrow> accessibleRestrooms e \<noteq> []"
    by (auto simp add: accessibleRestrooms_def allRestrooms_def cands_def filter_empty_conv)
  have b: "(\<exists>r \<in> set cands. babyChanging r) \<longleftrightarrow> babyChangingRestrooms e \<noteq> []"
    by (auto simp add: babyChangingRestrooms_def allRestrooms_def cands_def filter_empty_conv)
  have g: "(\<exists>r \<in> set cands. genderNeutral r) \<longleftrightarrow> genderNeutralRestrooms e \<noteq> []"
    by (auto simp add: genderNeutralRestrooms_def allRestrooms_def cands_def filter_empty_conv)
  have nc: "nearbyCleanRestrooms e st
              = filter (\<lambda>r. score (cleanliness r) \<ge> 85 \<and> km r \<le> 3) cands"
    by (simp add: nearbyCleanRestrooms_def cleanRestrooms_def allRestrooms_def cands_def w)
  have na: "nearbyAccessible e st = filter (\<lambda>r. accessibility r \<and> km r \<le> 3) cands"
    by (simp add: nearbyAccessible_def accessibleRestrooms_def allRestrooms_def cands_def w)
  have nb: "nearbyBabyChanging e st = filter (\<lambda>r. babyChanging r \<and> km r \<le> 3) cands"
    by (simp add: nearbyBabyChanging_def babyChangingRestrooms_def allRestrooms_def
        cands_def w)
  have ng: "nearbyGenderNeutral e st = filter (\<lambda>r. genderNeutral r \<and> km r \<le> 3) cands"
    by (simp add: nearbyGenderNeutral_def genderNeutralRestrooms_def allRestrooms_def
        cands_def w)
  have 1: "intentOf (toLowerCase q) = Clean \<and> hasLocationPermission st
      \<and> (\<exists>r \<in> set cands. score (cleanliness r) \<ge> 85) \<longrightarrow>
      processUserQuery e st q =
        (let m = filter (\<lambda>r. score (cleanliness r) \<ge> 85 \<and> km r \<le> 3) cands in
         if m = [] then (msg_clean_expand, [])
         else (msg_clean_found (length m) (name (hd m)) (score (cleanliness (hd m))),
               [''clean restrooms'']))"
    unfolding c nc [symmetric]
    by (simp add: processUserQuery_by_intent cleanBranch_def Let_def hd_conv_nth)
  have 2: "intentOf (toLowerCase q) = Accessible \<and> hasLocationPermission st
      \<and> (\<exists>r \<in> set cands. accessibility r) \<longrightarrow>
      processUserQuery e st q =
        (let m = filter (\<lambda>r. accessibility r \<and> km r \<le> 3) cands in
         if m = [] then (msg_accessible_expand, [])
         else (msg_accessible_found (length m), [''accessible'']))"
    unfolding a na [symmetric]
    by (simp add: processUserQuery_by_intent accessibleBranch_def Let_def)
  have 3: "intentOf (toLowerCase q) = BabyChanging \<and> hasLocationPermission st
      \<and> (\<exists>r \<in> set cands. babyChanging r) \<longrightarrow>
      processUserQuery e st q =
        (let m = filter (\<lambda>r. babyChanging r \<and> km r \<le> 3) cands in
         if m = [] then (msg_baby_expand, [])
         else (msg_baby_found (length m), [''baby changing'']))"
    unfolding b nb [symmetric]
    by (simp add: processUserQuery_by_intent babyBranch_def Let_def)
  have 4: "intentOf (toLowerCase q) = GenderNeutral \<and> hasLocationPermission st
      \<and> (\<exists>r \<in> set cands. genderNeutral r) \<longrightarrow>
      processUserQuery e st q =
        (let m = filter (\<lambda>r. genderNeutral r \<and> km r \<le> 3) cands in
         if m = [] then (msg_gender_expand, [])
         else (msg_gender_found (length m), [''gender neutral'']))"
    unfolding g ng [symmetric]
    by (simp add: processUserQuery_by_intent genderBranch_def Let_def)
  have 5: "intentOf (toLowerCase q) = Nearby \<and> hasLocationPermission st \<longrightarrow>
      processUserQuery e st q =
        (let m = getRestroomsByLocation e (lat (currentLocation st))
                   (lng (currentLocation st)) 2
                 @ getNearbyRestrooms e (lat (currentLocation st))
                     (lng (currentLocation st)) 2 in
         if m = [] then (msg_nearby_expand, [])
         else (msg_nearby_found (length m) (name (hd m))
                 (cleanlinessText (getCleanlinessTier e (score (cleanliness (hd m))))),
               [q]))"
    by (simp add: processUserQuery_by_intent nearbyBranch_def nearbyRestrooms_def Let_def
        hd_conv_nth)
  show ?thesis
    by (intro conjI) (rule 1 2 3 4 5)+
qed

theorem radius_three_and_two_witness:
  "hasLocationPermission (userAt True) \<and>
   distance (catalogueEnv tierOf [restroomA, restroomB, restroomC, restroomD] [])
       (currentLocation (userAt True)) restroomC
     = sqrt ((11.0368 - 11.0168)\<^sup>2 + (76.9558 - 76.9558)\<^sup>2) * 111 \<and>
   distance (catalogueEnv tierOf [restroomA, restroomB, restroomC, restroomD] [])
       (currentLocation (userAt True)) restroomC \<le> 3 \<and>
   \<not> distance (catalogueEnv tierOf [restroomA, restroomB, restroomC, restroomD] [])
         (currentLocation (userAt True)) restroomC \<le> 2 \<and>
   \<not> distance (catalogueEnv tierOf [restroomA, restroomB, restroomC, restroomD] [])
         (currentLocation (userAt True)) restroomD \<le> 3 \<and>
   intentOf (toLowerCase ''somewhere clean'') = Clean \<and>
   processUserQuery (catalogueEnv tierOf [restroomA, restroomB, restroomC, restroomD] [])
     (userAt True) ''somewhere clean'' = (''I found 2 highly-rated clean restrooms near you. The top rated is A with a cleanliness score of 90/100. Would you like me to show them on the map?'',
        [''clean restrooms'']) \<and>
   intentOf (toLowerCase ''accessible'') = Accessible \<and>
   processUserQuery (catalogueEnv tierOf [restroomA, restroomB, restroomC, restroomD] [])
     (userAt True) ''accessible'' = (''I found 1 accessible restrooms near you. Would you like me to show them on the map?'',
        [''accessible'']) \<and>
   intentOf (toLowerCase ''somewhere for a baby'') = BabyChanging \<and>
   processUserQuery (catalogueEnv tierOf [restroomA, restroomB, restroomC, restroomD] [])
     (userAt True) ''somewhere for a baby'' = (''I found 1 restrooms with baby changing facilities near you. Would you like me to show them on the map?'',
        [''baby changing'']) \<and>
   intentOf (toLowerCase ''gender neutral'') = GenderNeutral \<and>
   processUserQuery (catalogueEnv tierOf [restroomA, restroomB, restroomC, restroomD] [])
     (userAt True) ''gender neutral'' = (''I found 1 gender-neutral restrooms near you. Would you like me to show them on the map?'',
        [''gender neutral'']) \<and>
   intentOf (toLowerCase ''toilet'') = Nearby \<and>
   processUserQuery (catalogueEnv tierOf [restroomA, restroomB, restroomC, restroomD] [])
     (userAt True) ''toilet'' = (''I found 2 restrooms near you. The closest is A, which is highly rated for cleanliness. Would you like to see them on the map?'',
        [''toilet''])"
proof -
  let ?E = "catalogueEnv tierOf [restroomA, restroomB, restroomC, restroomD] []"
  let ?S = "userAt True"
  have i: "intentOf (toLowerCase ''somewhere clean'') = Clean"
    "intentOf (toLowerCase ''accessible'') = Accessible"
    "intentOf (toLowerCase ''somewhere for a baby'') = BabyChanging"
    "intentOf (toLowerCase ''gender neutral'') = GenderNeutral"
    "intentOf (toLowerCase ''toilet'') = Nearby"
    by code_simp+
  have p: "hasLocationPermission ?S"
    by (simp add: userAt_def)
  have d0: "distance ?E (currentLocation ?S) restroomC
              = sqrt ((11.0368 - 11.0168)\<^sup>2 + (76.9558 - 76.9558)\<^sup>2) * 111"
    by (simp add: distance_catalogueEnv userAt_def restroomC_def)
  have d: "distance ?E (currentLocation ?S) restroomC \<le> 3"
    "\<not> distance ?E (currentLocation ?S) restroomC \<le> 2"
    "\<not> distance ?E (currentLocation ?S) restroomD \<le> 3"
    by (simp_all add: distance_catalogueEnv_le userAt_def restroomC_def restroomD_def
        power2_eq_square)
  have x: "\<exists>r \<in> set (getAllRestrooms ?E @ getUserRestrooms ?E). score (cleanliness r) \<ge> 85"
    "\<exists>r \<in> set (getAllRestrooms ?E @ getUserRestrooms ?E). accessibility r"
    "\<exists>r \<in> set (getAllRestrooms ?E @ getUserRestrooms ?E). babyChanging r"
    "\<exists>r \<in> set (getAllRestrooms ?E @ getUserRestrooms ?E). genderNeutral r"
    by (simp_all add: scenario_eval)
  have h: "getRestroomsByLocation ?E (lat (currentLocation ?S)) (lng (currentLocation ?S)) 2
             @ getNearbyRestrooms ?E (lat (currentLocation ?S)) (lng (currentLocation ?S)) 2
           = [restroomA, restroomB]"
    by code_simp
  have t: "cleanlinessText (getCleanlinessTier ?E 90) = ''highly rated''"
    by code_simp
  note fold = distance_def [symmetric] within3_def [symmetric]
  note T1 = radius_three_and_two [where q = "''somewhere clean''" and st = ?S and e = ?E,
      THEN conjunct1, THEN mp, OF conjI [OF i(1) conjI [OF p x(1)]]]
  have r1: "processUserQuery ?E ?S ''somewhere clean''
              = (msg_clean_found 2 ''A'' 90, [''clean restrooms''])"
    unfolding T1 by (simp add: fold scenario_eval numeral_2_eq_2)
  note T2 = radius_three_and_two [where q = "''accessible''" and st = ?S and e = ?E,
      THEN conjunct2, THEN conjunct1, THEN mp, OF conjI [OF i(2) conjI [OF p x(2)]]]
  have r2: "processUserQuery ?E ?S ''accessible'' = (msg_accessible_found 1, [''accessible''])"
    unfolding T2 by (simp add: fold scenario_eval)
  note T3 = radius_three_and_two [where q = "''somewhere for a baby''" and st = ?S and e = ?E,
      THEN conjunct2, THEN conjunct2, THEN conjunct1, THEN mp,
      OF conjI [OF i(3) conjI [OF p x(3)]]]
  have r3: "processUserQuery ?E ?S ''somewhere for a baby''
              = (msg_baby_found 1, [''baby changing''])"
    unfolding T3 by (simp add: fold scenario_eval)
  note T4 = radius_three_and_two [where q = "''gender neutral''" and st = ?S and e = ?E,
      THEN conjunct2, THEN conjunct2, THEN conjunct2, THEN conjunct1, THEN mp,
      OF conjI [OF i(4) conjI [OF p x(4)]]]
  have r4: "processUserQuery ?E ?S ''gender neutral''
              = (msg_gender_found 1, [''gender neutral''])"
    unfolding T4 by (simp add: fold scenario_eval)
  note T5 = radius_three_and_two [where q = "''toilet''" and st = ?S and e = ?E,
      THEN conjunct2, THEN conjunct2, THEN conjunct2, THEN conjunct2, THEN mp,
      OF conjI [OF i(5) p]]
  have r5: "processUserQuery ?E ?S ''toilet''
              = (msg_nearby_found 2 ''A'' ''highly rated'', [''toilet''])"
    unfolding T5 h by (simp add: scenario_records t numeral_2_eq_2)
  have m: "msg_clean_found 2 ''A'' 90 =
      ''I found 2 highly-rated clean restrooms near you. The top rated is A with a cleanliness score of 90/100. Would you like me to show them on the map?''"
    "msg_accessible_found 1 =
      ''I found 1 accessible restrooms near you. Would you like me to show them on the map?''"
    "msg_baby_found 1 =
      ''I found 1 restrooms with baby changing facilities near you. Would you like me to show them on the map?''"
    "msg_gender_found 1 =
      ''I found 1 gender-neutral restrooms near you. Would you like me to show them on the map?''"
    "msg_nearby_found 2 ''A'' ''highly rated'' =
      ''I found 2 restrooms near you. The closest is A, which is highly rated for cleanliness. Would you like to see them on the map?''"
    by code_simp+
  show ?thesis
    by (intro conjI)
      (rule p d0 d i r1 [unfolded m] r2 [unfolded m] r3 [unfolded m] r4 [unfolded m]
        r5 [unfolded m])+
qed

subsection \<open>The order of the keyword tests\<close>

text \<open>
  Claim C1 says that every query whose lower-cased form contains both "clean" and
  "accessible" resolves to the clean intent. Its own example contains "restroom",
  which is tested before "clean": the query takes the generic nearby branch, with and
  without the location permission.
\<close>

theorem clean_before_accessible_counterexample:
  "includesStr (toLowerCase ''find a clean accessible restroom'') ''clean'' \<and>
   includesStr (toLowerCase ''find a clean accessible restroom'') ''accessible'' \<and>
   processUserQuery (catalogueEnv tierOf [restroomA, restroomB] []) (userAt True)
       ''find a clean accessible restroom''
     = (msg_nearby_found 2 ''A'' (cleanlinessText (tierOf 90)),
        [''find a clean accessible restroom'']) \<and>
   cleanBranch (catalogueEnv tierOf [restroomA, restroomB] []) (userAt True)
     = (msg_clean_found 1 ''A'' 90, [''clean restrooms'']) \<and>
   processUserQuery (catalogueEnv tierOf [restroomA, restroomB] []) (userAt True)
       ''find a clean accessible restroom''
     \<noteq> cleanBranch (catalogueEnv tierOf [restroomA, restroomB] []) (userAt True)"
proof -
  let ?E = "catalogueEnv tierOf [restroomA, restroomB] []"
  let ?q = "''find a clean accessible restroom''"
  have k: "includesStr (toLowerCase ?q) ''clean''" "includesStr (toLowerCase ?q) ''accessible''"
    by code_simp+
  have g: "processUserQuery ?E (userAt True) ?q
             = (msg_nearby_found 2 ''A'' (cleanlinessText (tierOf 90)), [?q])"
    by code_simp
  have c: "cleanBranch ?E (userAt True) = (msg_clean_found 1 ''A'' 90, [''clean restrooms''])"
    by (simp add: cleanBranch_def scenario_eval)
  have d: "processUserQuery ?E (userAt True) ?q \<noteq> cleanBranch ?E (userAt True)"
    unfolding g c by simp
  show ?thesis
    by (intro conjI) (rule k g c d)+
qed

text \<open>
  Claim C1, amended. Every query whose lower-cased form contains both "clean" and
  "accessible", and none of "restroom", "bathroom" and "toilet", resolves to the clean
  intent: the classifier runs the clean branch, whose only possible call is
  \<^verbatim>\<open>onFindNearbyRestrooms("clean restrooms")\<close>, made when a candidate of score 85 or
  more is within 3 km.
\<close>

theorem clean_before_accessible:
  assumes "includesStr (toLowerCase q) ''clean''"
    and "includesStr (toLowerCase q) ''accessible''"
    and "\<not> includesStr (toLowerCase q) ''restroom''"
    and "\<not> includesStr (toLowerCase q) ''bathroom''"
    and "\<not> includesStr (toLowerCase q) ''toilet''"
  shows "intentOf (toLowerCase q) = Clean \<and>
         processUserQuery e st q = cleanBranch e st \<and>
         snd (processUserQuery e st q) =
           (if hasLocationPermission st
               \<and> filter (\<lambda>r. score (cleanliness r) \<ge> 85 \<and> within3 e (currentLocation st) r)
                    (getAllRestrooms e @ getUserRestrooms e) \<noteq> []
            then [''clean restrooms''] else [])"
proof -
  have i: "intentOf (toLowerCase q) = Clean"
    using assms by (simp add: intentOf_def asksNearby_def asksClean_def)
  have p: "processUserQuery e st q = cleanBranch e st"
    using i by (simp add: processUserQuery_by_intent)
  have n: "nearbyCleanRestrooms e st =
             filter (\<lambda>r. score (cleanliness r) \<ge> 85 \<and> within3 e (currentLocation st) r)
               (getAllRestrooms e @ getUserRestrooms e)"
    by (simp add: nearbyCleanRestrooms_def cleanRestrooms_def allRestrooms_def)
  have m: "nearbyCleanRestrooms e st \<noteq> [] \<Longrightarrow> cleanRestrooms e \<noteq> []"
    by (auto simp add: nearbyCleanRestrooms_def)
  have s: "snd (cleanBranch e st) =
             (if hasLocationPermission st \<and> nearbyCleanRestrooms e st \<noteq> []
              then [''clean restrooms''] else [])"
    using m by (auto simp add: cleanBranch_def)
  show ?thesis
    using i p s unfolding n by simp
qed

theorem clean_before_accessible_witness:
  "includesStr (toLowerCase ''Find a CLEAN accessible place'') ''clean'' \<and>
   includesStr (toLowerCase ''Find a CLEAN accessible place'') ''accessible'' \<and>
   \<not> includesStr (toLowerCase ''Find a CLEAN accessible place'') ''restroom'' \<and>
   \<not> includesStr (toLowerCase ''Find a CLEAN accessible place'') ''bathroom'' \<and>
   \<not> includesStr (toLowerCase ''Find a CLEAN accessible place'') ''toilet'' \<and>
   processUserQuery (catalogueEnv tierOf [restroomA, restroomB] []) (userAt True)
       ''Find a CLEAN accessible place''
     = (msg_clean_found 1 ''A'' 90, [''clean restrooms''])"
proof -
  let ?q = "''Find a CLEAN accessible place''"
  have h1: "includesStr (toLowerCase ?q) ''clean''"
    by code_simp
  have h2: "includesStr (toLowerCase ?q) ''accessible''"
    by code_simp
  have h3: "\<not> includesStr (toLowerCase ?q) ''restroom''"
    by code_simp
  have h4: "\<not> includesStr (toLowerCase ?q) ''bathroom''"
    by code_simp
  have h5: "\<not> includesStr (toLowerCase ?q) ''toilet''"
    by code_simp
  have c: "cleanBranch (catalogueEnv tierOf [restroomA, restroomB] []) (userAt True)
             = (msg_clean_found 1 ''A'' 90, [''clean restrooms''])"
    by (simp add: cleanBranch_def scenario_eval)
  have r: "processUserQuery (catalogueEnv tierOf [restroomA, restroomB] []) (userAt True) ?q
             = (msg_clean_found 1 ''A'' 90, [''clean restrooms''])"
    using clean_before_accessible [OF h1 h2 h3 h4 h5,
        of "catalogueEnv tierOf [restroomA, restroomB] []" "userAt True"]
    by (simp only: c)
  show ?thesis
    using h1 h2 h3 h4 h5 r by simp
qed

subsection \<open>The scenario of the clean restroom\<close>

text \<open>
  Claim C2 says that "Where can I find a clean restroom?", with the permission, the user
  at (11.0168, 76.9558) and the candidates A (score 90) and B (score 70) about 1 km
  away, is answered with one restroom, "90/100" and the trigger "clean restrooms". The
  query contains "restroom": the generic nearby branch answers, counts both A and B,
  does not mention "90/100" and passes the raw query to the callback.
\<close>

theorem clean_restroom_scenario_counterexample:
  "processUserQuery (catalogueEnv tierOf [restroomA, restroomB] []) (userAt True)
       ''Where can I find a clean restroom?''
     = (msg_nearby_found 2 ''A'' (cleanlinessText (tierOf 90)),
        [''Where can I find a clean restroom?'']) \<and>
   \<not> includesStr
       (fst (processUserQuery (catalogueEnv tierOf [restroomA, restroomB] []) (userAt True)
               ''Where can I find a clean restroom?'')) ''90/100'' \<and>
   snd (processUserQuery (catalogueEnv tierOf [restroomA, restroomB] []) (userAt True)
          ''Where can I find a clean restroom?'') \<noteq> [''clean restrooms'']"
  by code_simp

text \<open>
  Claim C2, amended. For that query, with the permission and the user at
  (11.0168, 76.9558), when the two helpers called with the radius 2 return two records,
  the reply is the one of the generic nearby branch: it counts 2 restrooms, names the
  first with the wording of its cleanliness tier, and the callback receives the raw
  query text.
\<close>

theorem clean_restroom_scenario:
  assumes "hasLocationPermission st"
    and "currentLocation st = \<lparr>lat = 11.0168, lng = 76.9558\<rparr>"
    and "getRestroomsByLocation e 11.0168 76.9558 2 @ getNearbyRestrooms e 11.0168 76.9558 2
           = [a, b]"
  shows "processUserQuery e st ''Where can I find a clean restroom?''
           = (msg_nearby_found 2 (name a)
                (cleanlinessText (getCleanlinessTier e (score (cleanliness a)))),
              [''Where can I find a clean restroom?''])"
proof -
  have i: "intentOf (toLowerCase ''Where can I find a clean restroom?'') = Nearby"
    by code_simp
  have n: "nearbyRestrooms e st = [a, b]"
    using assms by (simp add: nearbyRestrooms_def)
  show ?thesis
    by (simp add: processUserQuery_by_intent i nearbyBranch_def n numeral_2_eq_2)
qed

theorem clean_restroom_scenario_witness:
  "hasLocationPermission (userAt True) \<and>
   currentLocation (userAt True) = \<lparr>lat = 11.0168, lng = 76.9558\<rparr> \<and>
   getRestroomsByLocation (catalogueEnv tierOf [restroomA, restroomB] []) 11.0168 76.9558 2
     @ getNearbyRestrooms (catalogueEnv tierOf [restroomA, restroomB] []) 11.0168 76.9558 2
     = [restroomA, restroomB] \<and>
   processUserQuery (catalogueEnv tierOf [restroomA, restroomB] []) (userAt True)
       ''Where can I find a clean restroom?''
     = (msg_nearby_found 2 ''A'' (cleanlinessText (tierOf 90)),
        [''Where can I find a clean restroom?''])"
proof -
  let ?E = "catalogueEnv tierOf [restroomA, restroomB] []"
  have p: "hasLocationPermission (userAt True)"
    by (simp add: userAt_def)
  have l: "currentLocation (userAt True) = \<lparr>lat = 11.0168, lng = 76.9558\<rparr>"
    by (simp add: userAt_def)
  have h: "getRestroomsByLocation ?E 11.0168 76.9558 2
             @ getNearbyRestrooms ?E 11.0168 76.9558 2 = [restroomA, restroomB]"
    by code_simp
  have v: "name restroomA = ''A''" "getCleanlinessTier ?E (score (cleanliness restroomA))
             = tierOf 90"
    by (simp_all add: restroomA_def catalogueEnv_def)
  show ?thesis
    using p l h clean_restroom_scenario [OF p l h] by (simp only: v simp_thms)
qed

subsection \<open>The score filter of the clean intent\<close>

text \<open>
  Claim C3 says that for every query containing "clean" or "hygienic" only candidates
  of score 85 or more are counted and named. A query that also contains "toilet" (or
  "restroom", "bathroom") takes the generic nearby branch, which counts and names a
  candidate of score 70.
\<close>

theorem clean_query_score_filter_counterexample:
  "asksClean (toLowerCase ''hygienic toilet'') \<and>
   score (cleanliness restroomB) = 70 \<and>
   processUserQuery (catalogueEnv tierOf [restroomB] []) (userAt True) ''hygienic toilet''
     = (msg_nearby_found 1 ''B'' (cleanlinessText (tierOf 70)), [''hygienic toilet''])"
  by code_simp

text \<open>
  Claim C3, amended. For every query whose lower-cased form contains "clean" or
  "hygienic" and none of "restroom", "bathroom" and "toilet", and for every candidate
  list, the list the reply counts and names holds exactly the candidates of score 85
  or more that are within 3 km, in the order of the candidates: no other attribute of
  a candidate is read.
\<close>

theorem clean_query_score_filter:
  assumes "asksClean (toLowerCase q)"
    and "\<not> includesStr (toLowerCase q) ''restroom''"
    and "\<not> includesStr (toLowerCase q) ''bathroom''"
    and "\<not> includesStr (toLowerCase q) ''toilet''"
  shows "processUserQuery e st q =
           (let m = filter (\<lambda>r. score (cleanliness r) \<ge> 85 \<and> within3 e (currentLocation st) r)
                      (getAllRestrooms e @ getUserRestrooms e) in
            if hasLocationPermission st \<and> m \<noteq> [] then
              (msg_clean_found (length m) (name (hd m)) (score (cleanliness (hd m))),
               [''clean restrooms''])
            else if hasLocationPermission st
                \<and> (\<exists>r \<in> set (getAllRestrooms e @ getUserRestrooms e).
                      score (cleanliness r) \<ge> 85)
              then (msg_clean_expand, [])
            else (msg_clean_need_location, []))"
proof -
  define cands where "cands = getAllRestrooms e @ getUserRestrooms e"
  define m where
    "m = filter (\<lambda>r. score (cleanliness r) \<ge> 85 \<and> within3 e (currentLocation st) r) cands"
  have i: "intentOf (toLowerCase q) = Clean"
    using assms by (simp add: intentOf_def asksNearby_def)
  have n: "nearbyCleanRestrooms e st = m"
    by (simp add: nearbyCleanRestrooms_def cleanRestrooms_def allRestrooms_def m_def
        cands_def)
  have c: "cleanRestrooms e \<noteq> [] \<longleftrightarrow> (\<exists>r \<in> set cands. score (cleanliness r) \<ge> 85)"
    by (auto simp add: cleanRestrooms_def allRestrooms_def cands_def filter_empty_conv)
  have k: "m \<noteq> [] \<Longrightarrow> \<exists>r \<in> set cands. score (cleanliness r) \<ge> 85"
    by (auto simp add: m_def filter_empty_conv)
  have b: "cleanBranch e st =
          (if hasLocationPermission st \<and> m \<noteq> [] then
             (msg_clean_found (length m) (name (hd m)) (score (cleanliness (hd m))),
              [''clean restrooms''])
           else if hasLocationPermission st \<and> (\<exists>r \<in> set cands. score (cleanliness r) \<ge> 85)
             then (msg_clean_expand, [])
           else (msg_clean_need_location, []))"
    unfolding cleanBranch_def n length_greater_0_conv c
    using k by (auto simp add: hd_conv_nth)
  have "processUserQuery e st q = cleanBranch e st"
    by (simp add: processUserQuery_by_intent i)
  then show ?thesis
    unfolding b by (simp only: Let_def m_def cands_def)
qed

theorem clean_query_score_filter_witness:
  "asksClean (toLowerCase ''Any HYGIENIC place?'') \<and>
   \<not> includesStr (toLowerCase ''Any HYGIENIC place?'') ''restroom'' \<and>
   \<not> includesStr (toLowerCase ''Any HYGIENIC place?'') ''bathroom'' \<and>
   \<not> includesStr (toLowerCase ''Any HYGIENIC place?'') ''toilet'' \<and>
   filter (\<lambda>r. score (cleanliness r) \<ge> 85
             \<and> within3 (catalogueEnv tierOf [restroomB, restroomD] [restroomC, restroomE])
                   (currentLocation (userAt True)) r)
     (getAllRestrooms (catalogueEnv tierOf [restroomB, restroomD] [restroomC, restroomE])
        @ getUserRestrooms (catalogueEnv tierOf [restroomB, restroomD] [restroomC, restroomE]))
     = [restroomC] \<and>
   processUserQuery (catalogueEnv tierOf [restroomB, restroomD] [restroomC, restroomE])
       (userAt True) ''Any HYGIENIC place?''
     = (msg_clean_found 1 ''C'' 88, [''clean restrooms''])"
proof -
  let ?q = "''Any HYGIENIC place?''"
  let ?E = "catalogueEnv tierOf [restroomB, restroomD] [restroomC, restroomE]"
  have h1: "asksClean (toLowerCase ?q)"
    by code_simp
  have h2: "\<not> includesStr (toLowerCase ?q) ''restroom''"
    by code_simp
  have h3: "\<not> includesStr (toLowerCase ?q) ''bathroom''"
    by code_simp
  have h4: "\<not> includesStr (toLowerCase ?q) ''toilet''"
    by code_simp
  have f: "filter (\<lambda>r. score (cleanliness r) \<ge> 85
                     \<and> within3 ?E (currentLocation (userAt True)) r)
             (getAllRestrooms ?E @ getUserRestrooms ?E) = [restroomC]"
    by (simp add: scenario_eval)
  have p: "hasLocationPermission (userAt True)"
    by (simp add: userAt_def)
  have v: "name restroomC = ''C''" "score (cleanliness restroomC) = 88"
    by (simp_all add: restroomC_def)
  note T = clean_query_score_filter [OF h1 h2 h3 h4, of ?E "userAt True"]
  have r: "processUserQuery ?E (userAt True) ?q
             = (msg_clean_found 1 ''C'' 88, [''clean restrooms''])"
    unfolding T f by (simp add: p v)
  show ?thesis
    using h1 h2 h3 h4 f r by simp
qed

subsection \<open>The scenario of the accessible bathroom\<close>

text \<open>
  Claim C5 says that "accessible bathroom", with the permission and no accessible
  candidate, is answered with the expand-radius reply and no trigger. The query
  contains "bathroom": the generic nearby branch answers, and with two candidates
  about 1 km away, none of them accessible, it counts both and passes the raw query to
  the callback.
\<close>

theorem accessible_bathroom_counterexample:
  "accessibleRestrooms (catalogueEnv tierOf [restroomA, restroomB] []) = [] \<and>
   hasLocationPermission (userAt True) \<and>
   processUserQuery (catalogueEnv tierOf [restroomA, restroomB] []) (userAt True)
       ''accessible bathroom''
     = (msg_nearby_found 2 ''A'' (cleanlinessText (tierOf 90)), [''accessible bathroom'']) \<and>
   fst (processUserQuery (catalogueEnv tierOf [restroomA, restroomB] []) (userAt True)
          ''accessible bathroom'') \<noteq> msg_accessible_expand \<and>
   fst (processUserQuery (catalogueEnv tierOf [restroomA, restroomB] []) (userAt True)
          ''accessible bathroom'') \<noteq> msg_nearby_expand"
  by code_simp

text \<open>
  Claim C5, amended. For the query "accessible bathroom" with the permission, the
  generic nearby branch answers and the accessibility of the candidates is not read:
  when the two helpers called with the radius 2 return no record, the result is the
  generic expand-radius reply and no call; otherwise the reply counts the records
  returned and the callback receives the raw query text.
\<close>

theorem accessible_bathroom_is_generic:
  assumes "hasLocationPermission st"
  shows "processUserQuery e st ''accessible bathroom'' =
           (let m = getRestroomsByLocation e (lat (currentLocation st))
                      (lng (currentLocation st)) 2
                    @ getNearbyRestrooms e (lat (currentLocation st))
                        (lng (currentLocation st)) 2 in
            if m = [] then (msg_nearby_expand, [])
            else (msg_nearby_found (length m) (name (hd m))
                    (cleanlinessText (getCleanlinessTier e (score (cleanliness (hd m))))),
                  [''accessible bathroom'']))"
proof -
  have i: "intentOf (toLowerCase ''accessible bathroom'') = Nearby"
    by code_simp
  show ?thesis
    using assms
    by (simp add: processUserQuery_by_intent i nearbyBranch_def nearbyRestrooms_def Let_def
        hd_conv_nth)
qed

theorem accessible_bathroom_is_generic_witness:
  "hasLocationPermission (userAt True) \<and>
   accessibleRestrooms (catalogueEnv tierOf [restroomD] []) = [restroomD] \<and>
   processUserQuery (catalogueEnv tierOf [restroomD] []) (userAt True) ''accessible bathroom''
     = (msg_nearby_expand, []) \<and>
   accessibleRestrooms (catalogueEnv tierOf [] []) = [] \<and>
   processUserQuery (catalogueEnv tierOf [] []) (userAt True) ''accessible bathroom''
     = (msg_nearby_expand, [])"
proof -
  let ?E1 = "catalogueEnv tierOf [restroomD] []"
  let ?E2 = "catalogueEnv tierOf [] []"
  let ?S = "userAt True"
  have p: "hasLocationPermission ?S"
    by (simp add: userAt_def)
  have a: "accessibleRestrooms ?E1 = [restroomD]" "accessibleRestrooms ?E2 = []"
    by code_simp+
  have h1: "getRestroomsByLocation ?E1 (lat (currentLocation ?S)) (lng (currentLocation ?S)) 2
              @ getNearbyRestrooms ?E1 (lat (currentLocation ?S)) (lng (currentLocation ?S)) 2
            = []"
    by code_simp
  have h2: "getRestroomsByLocation ?E2 (lat (currentLocation ?S)) (lng (currentLocation ?S)) 2
              @ getNearbyRestrooms ?E2 (lat (currentLocation ?S)) (lng (currentLocation ?S)) 2
            = []"
    by code_simp
  have r1: "processUserQuery ?E1 ?S ''accessible bathroom'' = (msg_nearby_expand, [])"
    unfolding accessible_bathroom_is_generic [OF p, of ?E1] h1 by simp
  have r2: "processUserQuery ?E2 ?S ''accessible bathroom'' = (msg_nearby_expand, [])"
    unfolding accessible_bathroom_is_generic [OF p, of ?E2] h2 by simp
  show ?thesis
    using p a r1 r2 by simp
qed

end
